theory Spec2Isabelle
  imports Complex_Main
begin

section \<open>Exceptions and Python list indexing\<close>

text \<open>
  The notebooks are Python. An exception is a value: \<open>IndexError\<close> is what the
  interpreter raises when a Python list is read out of range, \<open>AttributeError\<close> is
  what a missing attribute gives, and \<open>LibraryError\<close> stands for whatever an external
  library call (HyperSpy, LumiSpy, NumPy) raises from inside, with its message.
  A cell that runs to its end yields \<open>None\<close> in the first component of its result,
  a cell that an exception leaves yields \<open>Some\<close> of that exception; the second
  component is the kernel state the cell leaves behind in either case.
\<close>

datatype exn = IndexError | AttributeError | LibraryError string

text \<open>\<open>xs[i]\<close> on a Python list, for any integer index (a negative one counts from the end).\<close>

definition list_getitem :: "'a list \<Rightarrow> int \<Rightarrow> exn + 'a" where
  "list_getitem xs i =
     (if 0 \<le> i \<and> i < int (length xs) then Inr (xs ! nat i)
      else if i < 0 \<and> - int (length xs) \<le> i then Inr (xs ! nat (int (length xs) + i))
      else Inl IndexError)"

section \<open>AttolightSEM_sur_to_hspy.ipynb: the background-path cell\<close>

text \<open>
  Cell 12 of the notebook:
  \<^verbatim>\<open>
  try:
      bkg_path = os.path.join(root_folder, '*.txt')
      bkg_path = glob.glob(bkg_path)[0]
  except IndexError:
      print('Please, specify a `background.txt` file path below:')
      bkg_path = ''
  \<close>
  \<open>os.path.join\<close> and \<open>glob.glob\<close> belong to the standard library and are taken
  as parameters (the file system is whatever \<open>glob\<close> answers); on string arguments
  neither raises. \<open>root_folder\<close> is bound by cell 5. \<open>bkg_path\<close> is \<open>None\<close> while
  the name is unbound.
\<close>

record os_env =
  os_path_join :: "string \<Rightarrow> string \<Rightarrow> string"
  glob_glob :: "string \<Rightarrow> string list"

record bkg_state =
  root_folder :: string
  bkg_path :: "string option"
  stdout :: "string list"

definition bkg_prompt :: string where
  "bkg_prompt = ''Please, specify a `background.txt` file path below:''"

text \<open>The body of the \<open>try\<close>: the first assignment has happened when the index raises.\<close>

definition bkg_path_try :: "os_env \<Rightarrow> bkg_state \<Rightarrow> exn option \<times> bkg_state" where
  "bkg_path_try env s =
     (let p = os_path_join env (root_folder s) ''*.txt'';
          s1 = s\<lparr>bkg_path := Some p\<rparr>
      in case list_getitem (glob_glob env p) 0 of
           Inl e \<Rightarrow> (Some e, s1)
         | Inr f \<Rightarrow> (None, s1\<lparr>bkg_path := Some f\<rparr>))"

text \<open>The whole statement: the handler takes \<open>IndexError\<close> only.\<close>

definition bkg_path_cell :: "os_env \<Rightarrow> bkg_state \<Rightarrow> exn option \<times> bkg_state" where
  "bkg_path_cell env s =
     (case bkg_path_try env s of
        (None, s1) \<Rightarrow> (None, s1)
      | (Some e, s1) \<Rightarrow>
          (if e = IndexError
           then (None, s1\<lparr>stdout := stdout s1 @ [bkg_prompt], bkg_path := Some ''''\<rparr>)
           else (Some e, s1)))"

section \<open>AttolightSEM_HYP.ipynb: the navigator cell\<close>

text \<open>
  Cell 27 of the notebook:
  \<^verbatim>\<open>
  try:
      crop = cl_sem_bkg_spikes.metadata.Signal.cropped_edges
      size_x = cl_sem_bkg_spikes.metadata.Acquisition_instrument.SEM.resolution_x
      size_y = cl_sem_bkg_spikes.metadata.Acquisition_instrument.SEM.resolution_x
      SE = SE.isig[crop:size_x-crop, crop:size_y-crop]
      cl_sem_bkg_spikes.plot(navigator=SE)
  except:
      cl_sem_bkg_spikes.plot(navigator=SE)
  \<close>
  The metadata of a signal is a tree of named items; an item is an integer or a subtree.
  Reading an attribute that is not there raises \<open>AttributeError\<close>, subtracting
  anything but two integers raises (a \<open>TypeError\<close>, here a \<open>LibraryError\<close>).
\<close>

datatype pyval = IntVal int | Tree "(string \<times> pyval) list"

fun getattr :: "pyval \<Rightarrow> string \<Rightarrow> exn + pyval" where
  "getattr (IntVal v) a = Inl AttributeError"
| "getattr (Tree kvs) a = (case map_of kvs a of None \<Rightarrow> Inl AttributeError | Some t \<Rightarrow> Inr t)"

text \<open>A chain of attribute reads \<open>t.a.b.c\<close>, left to right, stopping at the first that raises.\<close>

fun getattrs :: "pyval \<Rightarrow> string list \<Rightarrow> exn + pyval" where
  "getattrs t [] = Inr t"
| "getattrs t (a # as) = (case getattr t a of Inl e \<Rightarrow> Inl e | Inr u \<Rightarrow> getattrs u as)"

fun py_sub :: "pyval \<Rightarrow> pyval \<Rightarrow> exn + pyval" where
  "py_sub (IntVal a) (IntVal b) = Inr (IntVal (a - b))"
| "py_sub (IntVal a) (Tree kvs) = Inl (LibraryError ''TypeError'')"
| "py_sub (Tree kvs) b = Inl (LibraryError ''TypeError'')"

text \<open>
  The two library calls of the cell are parameters: \<open>isig img a b c d\<close> is
  \<open>img.isig[a:b, c:d]\<close> (the cropped image, or the exception it raises), and
  \<open>plot img\<close> is \<open>cl_sem_bkg_spikes.plot(navigator=img)\<close> (\<open>None\<close> when it returns).
  Every call made is recorded, in order, in \<open>calls\<close>.
\<close>

record 'img sem_lib =
  isig :: "'img \<Rightarrow> pyval \<Rightarrow> pyval \<Rightarrow> pyval \<Rightarrow> pyval \<Rightarrow> exn + 'img"
  plot :: "'img \<Rightarrow> exn option"

datatype 'img lib_call = Isig 'img pyval pyval pyval pyval | Plot 'img

record 'img nav_state =
  SE :: 'img
  crop :: "pyval option"
  size_x :: "pyval option"
  size_y :: "pyval option"
  calls :: "'img lib_call list"

definition path_cropped_edges :: "string list" where
  "path_cropped_edges = [''Signal'', ''cropped_edges'']"

definition path_resolution_x :: "string list" where
  "path_resolution_x = [''Acquisition_instrument'', ''SEM'', ''resolution_x'']"


text \<open>
  The body of the \<open>try\<close>, statement by statement; \<open>md\<close> is
  \<open>cl_sem_bkg_spikes.metadata\<close>. Both \<open>size_x\<close> and \<open>size_y\<close> read
  \<open>path_resolution_x\<close>, as the source does.
\<close>

definition navigator_try ::
  "'img sem_lib \<Rightarrow> pyval \<Rightarrow> 'img nav_state \<Rightarrow> exn option \<times> 'img nav_state" where
  "navigator_try lib md s =
     (case getattrs md path_cropped_edges of
        Inl e \<Rightarrow> (Some e, s)
      | Inr c \<Rightarrow>
     (case getattrs md path_resolution_x of
        Inl e \<Rightarrow> (Some e, s\<lparr>crop := Some c\<rparr>)
      | Inr x \<Rightarrow>
     (case getattrs md path_resolution_x of
        Inl e \<Rightarrow> (Some e, s\<lparr>crop := Some c, size_x := Some x\<rparr>)
      | Inr y \<Rightarrow>
     (let s3 = s\<lparr>crop := Some c, size_x := Some x, size_y := Some y\<rparr> in
      case py_sub x c of
        Inl e \<Rightarrow> (Some e, s3)
      | Inr hx \<Rightarrow>
     (case py_sub y c of
        Inl e \<Rightarrow> (Some e, s3)
      | Inr hy \<Rightarrow>
     (let s4 = s3\<lparr>calls := calls s3 @ [Isig (SE s3) c hx c hy]\<rparr> in
      case isig lib (SE s3) c hx c hy of
        Inl e \<Rightarrow> (Some e, s4)
      | Inr img \<Rightarrow>
          (plot lib img, s4\<lparr>SE := img, calls := calls s4 @ [Plot img]\<rparr>)))))))"

text \<open>The whole statement: the bare \<open>except\<close> takes every exception.\<close>

definition navigator_cell ::
  "'img sem_lib \<Rightarrow> pyval \<Rightarrow> 'img nav_state \<Rightarrow> exn option \<times> 'img nav_state" where
  "navigator_cell lib md s =
     (case navigator_try lib md s of
        (None, s1) \<Rightarrow> (None, s1)
      | (Some e, s1) \<Rightarrow> (plot lib (SE s1), s1\<lparr>calls := calls s1 @ [Plot (SE s1)]\<rparr>))"


definition demo_sem_lib :: "nat sem_lib" where
  "demo_sem_lib = \<lparr>isig = (\<lambda>img a b c d. Inr (Suc img)), plot = (\<lambda>img. None)\<rparr>"

definition demo_nav_state :: "nat nav_state" where
  "demo_nav_state = \<lparr>SE = 0, crop = None, size_x = None, size_y = None, calls = []\<rparr>"

section \<open>The workshop notebook of March 2023: \<open>getPeaks\<close> and the advanced fitting cell\<close>

text \<open>
  Cells 90 and 91 of the second notebook of \<open>src/unnamed/part_001\<close>:
  \<^verbatim>\<open>
  def getPeaks(S2):
      S2=S2.rebin(new_shape=[334])
      S2.smooth_savitzky_golay(window_length=15,polynomial_order=2)
      peaks = S2.find_peaks1D_ohaver(amp_thresh=0.2*np.max(S2.data),maxpeakn=10)[0]
      return peaks

  ng=10
  S2 = cl3.deepcopy()
  g = list()
  for i in np.arange(ng):
      g.append(hs.model.components1D.GaussianHF())
  m.extend(g)
  for i in np.arange(ng):
      g[i].active_is_multidimensional = True
  peaks = getPeaks(S2.inav[cl3.axes_manager.indices])
  for i in np.arange(np.size(peaks)):
      g[i].centre.value=peaks['position'][i]
      g[i].centre.bmin=peaks['position'][i]-3
      g[i].centre.bmax=peaks['position'][i]+3
      g[i].centre.bounded=True
      g[i].fwhm.value=5
      g[i].fwhm.bmax=10
      g[i].fwhm.bmin=1
      g[i].fwhm.bounded=True
      g[i].height.value=20
      g[i].height.bmin=1
      g[i].height.bounded=True
  if np.size(peaks)<ng:
      for i in np.arange(np.size(peaks),ng):
          g[i].active = False
  m.fit(bounded=True)
  m.plot()
  \<close>
  A fit parameter has a value, two optional bounds and a flag; a \<open>GaussianHF\<close>
  component has three of them and two flags of its own. Attribute stores are plain
  field updates. The floats of the source are reals here. A peak is one entry of the
  structured array that the peak finder returns. The field \<open>val\<close> is the
  parameter's \<open>value\<close>; \<open>m_extend\<close>, \<open>m_fit\<close> and \<open>m_plot\<close> below
  are the model's \<open>extend\<close>, \<open>fit\<close> and \<open>plot\<close>.
\<close>

record param =
  val :: real
  bmin :: "real option"
  bmax :: "real option"
  bounded :: bool

record component =
  centre :: param
  fwhm :: param
  height :: param
  active :: bool
  active_is_multidimensional :: bool

record peak =
  position :: real
  peak_height :: real
  peak_width :: real

text \<open>
  The library calls of the two cells are parameters. A signal and a model are opaque.
  \<open>smooth_savitzky_golay\<close> works in place: its result is the signal afterwards.
  \<open>find_peaks1D_ohaver s amp_thresh maxpeakn\<close> returns one array of peaks for each
  navigation position. \<open>m_fit m cs\<close> is \<open>m.fit(bounded=True)\<close> on a model whose
  components \<open>cs\<close> are the very objects that the list \<open>g\<close> holds: it returns them
  as the fit leaves them. \<open>active_is_multidimensional\<close> is a property of the
  library's component class: a store to it runs the library's setter, and
  \<open>set_active_is_multidimensional c b\<close> is the component as that setter leaves it
  (with the flag stored or not, as the library decides).
\<close>

record ('sig, 'model) fit_lib =
  GaussianHF :: component
  set_active_is_multidimensional :: "component \<Rightarrow> bool \<Rightarrow> component"
  deepcopy :: "'sig \<Rightarrow> exn + 'sig"
  axes_manager_indices :: "'sig \<Rightarrow> nat list"
  inav :: "'sig \<Rightarrow> nat list \<Rightarrow> exn + 'sig"
  rebin :: "'sig \<Rightarrow> nat list \<Rightarrow> exn + 'sig"
  smooth_savitzky_golay :: "'sig \<Rightarrow> nat \<Rightarrow> nat \<Rightarrow> exn + 'sig"
  np_max_data :: "'sig \<Rightarrow> real"
  find_peaks1D_ohaver :: "'sig \<Rightarrow> real \<Rightarrow> nat \<Rightarrow> exn + peak list list"
  m_extend :: "'model \<Rightarrow> component list \<Rightarrow> exn + 'model"
  m_fit :: "'model \<Rightarrow> component list \<Rightarrow> exn option \<times> component list"
  m_plot :: "'model \<Rightarrow> exn option"

definition getPeaks :: "('sig, 'model) fit_lib \<Rightarrow> 'sig \<Rightarrow> exn + peak list" where
  "getPeaks lib S2 =
     (case rebin lib S2 [334] of
        Inl e \<Rightarrow> Inl e
      | Inr S2a \<Rightarrow>
     (case smooth_savitzky_golay lib S2a 15 2 of
        Inl e \<Rightarrow> Inl e
      | Inr S2b \<Rightarrow>
     (case find_peaks1D_ohaver lib S2b (0.2 * np_max_data lib S2b) 10 of
        Inl e \<Rightarrow> Inl e
      | Inr r \<Rightarrow> list_getitem r 0)))"

record ('sig, 'model) fit_state =
  cl3 :: 'sig
  m :: 'model
  ng :: nat
  S2 :: 'sig
  g :: "component list"
  peaks :: "peak list"

text \<open>Statements in sequence: the first exception ends the run, the state stays.\<close>

fun run_stmts :: "('s \<Rightarrow> exn option \<times> 's) list \<Rightarrow> 's \<Rightarrow> exn option \<times> 's" where
  "run_stmts [] s = (None, s)"
| "run_stmts (f # fs) s = (case f s of (None, s1) \<Rightarrow> run_stmts fs s1 | (Some e, s1) \<Rightarrow> (Some e, s1))"

text \<open>\<open>for i in is: body\<close>, the loop as recursion over the indices still to come.\<close>

fun for_loop :: "nat list \<Rightarrow> (nat \<Rightarrow> 's \<Rightarrow> exn option \<times> 's) \<Rightarrow> 's \<Rightarrow> exn option \<times> 's" where
  "for_loop [] body s = (None, s)"
| "for_loop (i # is) body s =
     (case body i s of (None, s1) \<Rightarrow> for_loop is body s1 | (Some e, s1) \<Rightarrow> (Some e, s1))"

text \<open>
  \<open>g[i].attr = v\<close>: the list is indexed (out of range raises), then the object found
  there is changed by \<open>f\<close>.
\<close>

definition store_g ::
  "nat \<Rightarrow> (component \<Rightarrow> component) \<Rightarrow> ('sig, 'model) fit_state \<Rightarrow> exn option \<times> ('sig, 'model) fit_state" where
  "store_g i f s =
     (case list_getitem (g s) (int i) of
        Inl e \<Rightarrow> (Some e, s)
      | Inr c \<Rightarrow> (None, s\<lparr>g := (g s)[i := f c]\<rparr>))"

text \<open>
  \<open>g[i].attr = h(peaks['position'][i])\<close>: the right-hand side is evaluated first, and
  indexing the array out of range raises as a list does.
\<close>

definition store_g_position ::
  "nat \<Rightarrow> (real \<Rightarrow> component \<Rightarrow> component) \<Rightarrow> ('sig, 'model) fit_state \<Rightarrow> exn option \<times> ('sig, 'model) fit_state" where
  "store_g_position i f s =
     (case list_getitem (map position (peaks s)) (int i) of
        Inl e \<Rightarrow> (Some e, s)
      | Inr p \<Rightarrow> store_g i (f p) s)"

definition append_loop_body :: "('sig, 'model) fit_lib \<Rightarrow> nat \<Rightarrow> ('sig, 'model) fit_state \<Rightarrow> exn option \<times> ('sig, 'model) fit_state" where
  "append_loop_body lib i s = (None, s\<lparr>g := g s @ [GaussianHF lib]\<rparr>)"

definition multidimensional_loop_body :: "('sig, 'model) fit_lib \<Rightarrow> nat \<Rightarrow> ('sig, 'model) fit_state \<Rightarrow> exn option \<times> ('sig, 'model) fit_state" where
  "multidimensional_loop_body lib i = store_g i (\<lambda>c. set_active_is_multidimensional lib c True)"

definition peak_loop_body :: "nat \<Rightarrow> ('sig, 'model) fit_state \<Rightarrow> exn option \<times> ('sig, 'model) fit_state" where
  "peak_loop_body i =
     run_stmts
       [store_g_position i (\<lambda>p c. c\<lparr>centre := (centre c)\<lparr>val := p\<rparr>\<rparr>),
        store_g_position i (\<lambda>p c. c\<lparr>centre := (centre c)\<lparr>bmin := Some (p - 3)\<rparr>\<rparr>),
        store_g_position i (\<lambda>p c. c\<lparr>centre := (centre c)\<lparr>bmax := Some (p + 3)\<rparr>\<rparr>),
        store_g i (\<lambda>c. c\<lparr>centre := (centre c)\<lparr>bounded := True\<rparr>\<rparr>),
        store_g i (\<lambda>c. c\<lparr>fwhm := (fwhm c)\<lparr>val := 5\<rparr>\<rparr>),
        store_g i (\<lambda>c. c\<lparr>fwhm := (fwhm c)\<lparr>bmax := Some 10\<rparr>\<rparr>),
        store_g i (\<lambda>c. c\<lparr>fwhm := (fwhm c)\<lparr>bmin := Some 1\<rparr>\<rparr>),
        store_g i (\<lambda>c. c\<lparr>fwhm := (fwhm c)\<lparr>bounded := True\<rparr>\<rparr>),
        store_g i (\<lambda>c. c\<lparr>height := (height c)\<lparr>val := 20\<rparr>\<rparr>),
        store_g i (\<lambda>c. c\<lparr>height := (height c)\<lparr>bmin := Some 1\<rparr>\<rparr>),
        store_g i (\<lambda>c. c\<lparr>height := (height c)\<lparr>bounded := True\<rparr>\<rparr>)]"

definition inactive_loop_body :: "nat \<Rightarrow> ('sig, 'model) fit_state \<Rightarrow> exn option \<times> ('sig, 'model) fit_state" where
  "inactive_loop_body i = store_g i (\<lambda>c. c\<lparr>active := False\<rparr>)"

text \<open>
  The cell up to and including the \<open>if\<close>: every statement before \<open>m.fit\<close>.
  \<open>np.arange(n)\<close> is \<open>[0..<n]\<close>, \<open>np.arange(a, b)\<close> is \<open>[a..<b]\<close>,
  \<open>np.size(peaks)\<close> is the number of peaks.
\<close>

definition advanced_fitting_setup ::
  "('sig, 'model) fit_lib \<Rightarrow> ('sig, 'model) fit_state \<Rightarrow> exn option \<times> ('sig, 'model) fit_state" where
  "advanced_fitting_setup lib =
     run_stmts
       [(\<lambda>s. (None, s\<lparr>ng := 10\<rparr>)),
        (\<lambda>s. case deepcopy lib (cl3 s) of Inl e \<Rightarrow> (Some e, s) | Inr c \<Rightarrow> (None, s\<lparr>S2 := c\<rparr>)),
        (\<lambda>s. (None, s\<lparr>g := []\<rparr>)),
        (\<lambda>s. for_loop [0..<ng s] (append_loop_body lib) s),
        (\<lambda>s. case m_extend lib (m s) (g s) of Inl e \<Rightarrow> (Some e, s) | Inr m1 \<Rightarrow> (None, s\<lparr>m := m1\<rparr>)),
        (\<lambda>s. for_loop [0..<ng s] (multidimensional_loop_body lib) s),
        (\<lambda>s. case inav lib (S2 s) (axes_manager_indices lib (cl3 s)) of
                Inl e \<Rightarrow> (Some e, s)
              | Inr si \<Rightarrow> (case getPeaks lib si of Inl e \<Rightarrow> (Some e, s) | Inr ps \<Rightarrow> (None, s\<lparr>peaks := ps\<rparr>))),
        (\<lambda>s. for_loop [0..<length (peaks s)] peak_loop_body s),
        (\<lambda>s. if length (peaks s) < ng s
              then for_loop [length (peaks s)..<ng s] inactive_loop_body s
              else (None, s))]"

text \<open>
  The whole cell. The model's components are the objects of \<open>g\<close>, so what the fit does
  to them is seen through \<open>g\<close>.
\<close>

definition advanced_fitting_cell ::
  "('sig, 'model) fit_lib \<Rightarrow> ('sig, 'model) fit_state \<Rightarrow> exn option \<times> ('sig, 'model) fit_state" where
  "advanced_fitting_cell lib =
     run_stmts
       [advanced_fitting_setup lib,
        (\<lambda>s. case m_fit lib (m s) (g s) of (r, cs) \<Rightarrow> (r, s\<lparr>g := cs\<rparr>)),
        (\<lambda>s. (m_plot lib (m s), s))]"

text \<open>
  The list after the stores \<open>G[i] := F i (G[i])\<close> for the indices \<open>js\<close> in turn:
  what a loop that only stores into \<open>g[i]\<close> leaves in \<open>g\<close>.
\<close>

definition stores :: "(nat \<Rightarrow> 'a \<Rightarrow> 'a) \<Rightarrow> nat list \<Rightarrow> 'a list \<Rightarrow> 'a list" where
  "stores F js G0 = fold (\<lambda>i G. G[i := F i (G ! i)]) js G0"

text \<open>What one round of the peak loop does to the component at index \<open>i\<close>.\<close>

definition peak_store :: "peak list \<Rightarrow> nat \<Rightarrow> component \<Rightarrow> component" where
  "peak_store ps i c =
     c\<lparr>centre := (centre c)\<lparr>val := position (ps ! i), bmin := Some (position (ps ! i) - 3),
                             bmax := Some (position (ps ! i) + 3), bounded := True\<rparr>,
       fwhm := (fwhm c)\<lparr>val := 5, bmax := Some 10, bmin := Some 1, bounded := True\<rparr>,
       height := (height c)\<lparr>val := 20, bmin := Some 1, bounded := True\<rparr>\<rparr>"

text \<open>
  The list \<open>g\<close> when the second loop has run over ten fresh components, and when
  all three storing loops have run over them and the peaks \<open>ps\<close>.
\<close>

definition multidimensional_g :: "('sig, 'model) fit_lib \<Rightarrow> component list" where
  "multidimensional_g lib =
     stores (\<lambda>i c. set_active_is_multidimensional lib c True) [0..<10]
       (replicate 10 (GaussianHF lib))"

definition setup_g :: "('sig, 'model) fit_lib \<Rightarrow> peak list \<Rightarrow> component list" where
  "setup_g lib ps =
     stores (\<lambda>i c. c\<lparr>active := False\<rparr>) [length ps..<10]
       (stores (peak_store ps) [0..<length ps] (multidimensional_g lib))"

text \<open>
  Concrete inputs for the advanced fitting cell: signals and models numbered by naturals
  and a library whose calls all return. Its peak finder selects among the peaks it has
  detected with \<open>keep_highest\<close>: when there are more than \<open>maxpeakn\<close> of them,
  it keeps every peak that fewer than \<open>maxpeakn\<close> peaks exceed in height, so peaks
  tied with the last one kept all stay. \<open>demo_fit_lib\<close> detects two peaks,
  \<open>tied_peaks_lib\<close> detects eleven peaks of one height.
\<close>

definition demo_component :: component where
  "demo_component =
     \<lparr>centre = \<lparr>val = 0, bmin = None, bmax = None, bounded = False\<rparr>,
      fwhm = \<lparr>val = 1, bmin = Some 0, bmax = None, bounded = False\<rparr>,
      height = \<lparr>val = 1, bmin = Some 0, bmax = None, bounded = False\<rparr>,
      active = True, active_is_multidimensional = False\<rparr>"

definition keep_highest :: "nat \<Rightarrow> peak list \<Rightarrow> peak list" where
  "keep_highest n ps =
     (if n < length ps
      then filter (\<lambda>p. length (filter (\<lambda>q. peak_height p < peak_height q) ps) < n) ps
      else ps)"

definition two_peaks :: "peak list" where
  "two_peaks = [\<lparr>position = 580, peak_height = 50, peak_width = 4\<rparr>,
                \<lparr>position = 655, peak_height = 90, peak_width = 6\<rparr>]"

definition tied_peaks :: "peak list" where
  "tied_peaks = map (\<lambda>k. \<lparr>position = 600 + 10 * real k, peak_height = 50, peak_width = 4\<rparr>) [0..<11]"

definition demo_fit_lib :: "(nat, nat) fit_lib" where
  "demo_fit_lib =
     \<lparr>GaussianHF = demo_component,
      set_active_is_multidimensional = (\<lambda>c b. c),
      deepcopy = (\<lambda>s. Inr s),
      axes_manager_indices = (\<lambda>s. []),
      inav = (\<lambda>s ix. Inr s),
      rebin = (\<lambda>s shape. Inr s),
      smooth_savitzky_golay = (\<lambda>s w p. Inr s),
      np_max_data = (\<lambda>s. 100),
      find_peaks1D_ohaver = (\<lambda>s t n. Inr [keep_highest n two_peaks]),
      m_extend = (\<lambda>m cs. Inr (m + length cs)),
      m_fit = (\<lambda>m cs. (None, cs)),
      m_plot = (\<lambda>m. None)\<rparr>"

definition tied_peaks_lib :: "(nat, nat) fit_lib" where
  "tied_peaks_lib =
     demo_fit_lib\<lparr>find_peaks1D_ohaver := (\<lambda>s t n. Inr [keep_highest n tied_peaks])\<rparr>"

definition demo_fit_state :: "(nat, nat) fit_state" where
  "demo_fit_state = \<lparr>cl3 = 0, m = 2, ng = 0, S2 = 0, g = [], peaks = []\<rparr>"

section \<open>The notebooks as data\<close>

text \<open>
  A notebook file is a JSON list of cells; a cell is markdown or code, and the source of
  a code cell is a sequence of Python statements. The statements are kept as syntax
  trees, with the node names of Python's grammar: enough of the expression and statement
  forms for every code cell of the six notebooks, and the compound statements
  (\<open>while\<close>, \<open>class\<close>) that none of them uses. Comments are not part of the tree.
  A line for the IPython shell (\<open>%matplotlib ...\<close>, \<open>name?\<close>) is a \<open>Magic\<close>.
  A keyword argument \<open>k=v\<close> stands among the arguments of its call as \<open>Keyword k v\<close>;
  an omitted bound of a slice or an omitted exception type of a handler is \<open>Absent\<close>;
  a number is kept as it is written.
\<close>

datatype expr =
    Absent
  | Name string
  | Num string
  | Str string
  | Constant string
  | Attribute expr string
  | Call expr "expr list"
  | Keyword string expr
  | Subscript expr expr
  | Slice expr expr expr
  | BinOp expr string expr
  | UnaryOp string expr
  | Compare expr string expr
  | ListE "expr list"
  | TupleE "expr list"
  | DictE "expr list" "expr list"
  | Lambda "string list" expr
  | Starred expr

datatype stmt =
    Expr expr
  | Assign "expr list" expr
  | Import "(string \<times> string) list"
  | FunctionDef string "string list" "stmt list"
  | ClassDef string "expr list" "stmt list"
  | Return expr
  | Raise expr
  | For expr expr "stmt list"
  | While expr "stmt list"
  | If expr "stmt list" "stmt list"
  | Try "stmt list" "stmt list"
  | ExceptHandler expr "stmt list"
  | Magic string

datatype cell = Markdown | Code "stmt list"

text \<open>Every node of an expression, the expression itself first.\<close>

fun subexprs :: "expr \<Rightarrow> expr list" where
  "subexprs (Attribute e a) = Attribute e a # subexprs e"
| "subexprs (Call f as) = Call f as # subexprs f @ concat (map subexprs as)"
| "subexprs (Keyword k e) = Keyword k e # subexprs e"
| "subexprs (Subscript e i) = Subscript e i # subexprs e @ subexprs i"
| "subexprs (Slice l u s) = Slice l u s # subexprs l @ subexprs u @ subexprs s"
| "subexprs (BinOp l opr r) = BinOp l opr r # subexprs l @ subexprs r"
| "subexprs (UnaryOp opr e) = UnaryOp opr e # subexprs e"
| "subexprs (Compare l opr r) = Compare l opr r # subexprs l @ subexprs r"
| "subexprs (ListE es) = ListE es # concat (map subexprs es)"
| "subexprs (TupleE es) = TupleE es # concat (map subexprs es)"
| "subexprs (DictE ks vs) = DictE ks vs # concat (map subexprs ks) @ concat (map subexprs vs)"
| "subexprs (Lambda xs e) = Lambda xs e # subexprs e"
| "subexprs (Starred e) = Starred e # subexprs e"
| "subexprs e = [e]"

text \<open>Every statement of a statement, itself first, bodies and handlers included.\<close>

fun substmts :: "stmt \<Rightarrow> stmt list" where
  "substmts (FunctionDef f xs b) = FunctionDef f xs b # concat (map substmts b)"
| "substmts (ClassDef c bs b) = ClassDef c bs b # concat (map substmts b)"
| "substmts (For x it b) = For x it b # concat (map substmts b)"
| "substmts (While c b) = While c b # concat (map substmts b)"
| "substmts (If c b1 b2) = If c b1 b2 # concat (map substmts b1) @ concat (map substmts b2)"
| "substmts (Try b hs) = Try b hs # concat (map substmts b) @ concat (map substmts hs)"
| "substmts (ExceptHandler t b) = ExceptHandler t b # concat (map substmts b)"
| "substmts s = [s]"

text \<open>The expressions that stand directly in one statement (not those of its bodies).\<close>

fun own_exprs :: "stmt \<Rightarrow> expr list" where
  "own_exprs (Expr e) = [e]"
| "own_exprs (Assign ts e) = ts @ [e]"
| "own_exprs (ClassDef c bs b) = bs"
| "own_exprs (Return e) = [e]"
| "own_exprs (Raise e) = [e]"
| "own_exprs (For x it b) = [x, it]"
| "own_exprs (While c b) = [c]"
| "own_exprs (If c b1 b2) = [c]"
| "own_exprs (ExceptHandler t b) = [t]"
| "own_exprs s = []"

text \<open>Every expression node of a sequence of statements, in source order.\<close>

definition all_exprs :: "stmt list \<Rightarrow> expr list" where
  "all_exprs ss = concat (map subexprs (concat (map own_exprs (concat (map substmts ss)))))"

text \<open>
  The name a call goes to: the method or function name, the last component of a dotted
  path (\<open>hs.model.components1D.Expression(...)\<close> goes to \<open>Expression\<close>).
\<close>

fun callee :: "expr \<Rightarrow> string" where
  "callee (Attribute e a) = a"
| "callee (Name f) = f"
| "callee e = ''''"

text \<open>The names called in a sequence of statements, in source order.\<close>

fun call_name :: "expr \<Rightarrow> string list" where
  "call_name (Call f as) = [callee f]"
| "call_name e = []"

definition calls_of :: "stmt list \<Rightarrow> string list" where
  "calls_of ss = concat (map call_name (all_exprs ss))"

text \<open>The calls that go to a bare name (a builtin or a function of the notebook's own).\<close>

fun bare_call_name :: "expr \<Rightarrow> string list" where
  "bare_call_name (Call (Name f) as) = [f]"
| "bare_call_name e = []"

definition bare_calls_of :: "stmt list \<Rightarrow> string list" where
  "bare_calls_of ss = concat (map bare_call_name (all_exprs ss))"

text \<open>The attributes read or called, in source order.\<close>

fun attr_name :: "expr \<Rightarrow> string list" where
  "attr_name (Attribute e a) = [a]"
| "attr_name e = []"

definition attrs_of :: "stmt list \<Rightarrow> string list" where
  "attrs_of ss = concat (map attr_name (all_exprs ss))"

text \<open>
  Control flow: the keyword of every loop, conditional branch and exception handler
  statement of a sequence of statements, in source order, nested ones included.
\<close>

fun control_keyword :: "stmt \<Rightarrow> string list" where
  "control_keyword (For x it b) = [''for'']"
| "control_keyword (While c b) = [''while'']"
| "control_keyword (If c b1 b2) = [''if'']"
| "control_keyword (Try b hs) = [''try'']"
| "control_keyword s = []"

definition control_flow :: "stmt list \<Rightarrow> string list" where
  "control_flow ss = concat (map control_keyword (concat (map substmts ss)))"

text \<open>The functions and the classes that a sequence of statements defines.\<close>

fun def_name :: "stmt \<Rightarrow> string list" where
  "def_name (FunctionDef f xs b) = [f]"
| "def_name s = []"

fun class_name :: "stmt \<Rightarrow> string list" where
  "class_name (ClassDef c bs b) = [c]"
| "class_name s = []"

definition defined_functions :: "stmt list \<Rightarrow> string list" where
  "defined_functions ss = concat (map def_name (concat (map substmts ss)))"

definition defined_classes :: "stmt list \<Rightarrow> string list" where
  "defined_classes ss = concat (map class_name (concat (map substmts ss)))"

text \<open>The anonymous functions (\<open>lambda\<close>) of a sequence of statements.\<close>

fun lambda_expr :: "expr \<Rightarrow> expr list" where
  "lambda_expr (Lambda xs e) = [Lambda xs e]"
| "lambda_expr e = []"

definition lambdas_of :: "stmt list \<Rightarrow> expr list" where
  "lambdas_of ss = concat (map lambda_expr (all_exprs ss))"

text \<open>
  A model component of the notebook's own: a call of the library's \<open>Expression\<close>
  component with an \<open>expression\<close> string and a \<open>name\<close>, which makes a component
  that the library does not have. The function lists the names given.
\<close>

fun keyword_str :: "string \<Rightarrow> expr \<Rightarrow> string list" where
  "keyword_str k (Keyword k' (Str v)) = (if k = k' then [v] else [])"
| "keyword_str k e = []"

fun custom_component :: "expr \<Rightarrow> string list" where
  "custom_component (Call f as) =
     (if callee f = ''Expression'' \<and> concat (map (keyword_str ''expression'') as) \<noteq> []
      then concat (map (keyword_str ''name'') as) else [])"
| "custom_component e = []"

definition custom_components :: "stmt list \<Rightarrow> string list" where
  "custom_components ss = concat (map custom_component (all_exprs ss))"

text \<open>The expressions assigned to a variable, in source order.\<close>

fun assigned_to :: "string \<Rightarrow> stmt \<Rightarrow> expr list" where
  "assigned_to x (Assign ts e) = (if Name x \<in> set ts then [e] else [])"
| "assigned_to x s = []"

definition assigned_values :: "string \<Rightarrow> stmt list \<Rightarrow> expr list" where
  "assigned_values x ss = concat (map (assigned_to x) (concat (map substmts ss)))"

text \<open>The exception types that the handlers of a sequence of statements name.\<close>

fun handler_type :: "stmt \<Rightarrow> expr list" where
  "handler_type (ExceptHandler t b) = [t]"
| "handler_type s = []"

definition handler_types :: "stmt list \<Rightarrow> expr list" where
  "handler_types ss = concat (map handler_type (concat (map substmts ss)))"

text \<open>The files that a sequence of statements loads: the string arguments of \<open>load\<close>.\<close>

fun str_arg :: "expr \<Rightarrow> string list" where
  "str_arg (Str v) = [v]"
| "str_arg e = []"

fun loaded_file :: "expr \<Rightarrow> string list" where
  "loaded_file (Call f as) = (if callee f = ''load'' then concat (map str_arg as) else [])"
| "loaded_file e = []"

definition loaded_files :: "stmt list \<Rightarrow> string list" where
  "loaded_files ss = concat (map loaded_file (all_exprs ss))"

text \<open>
  Over a notebook: the code cells with their position in the file (cells are counted
  from 0, markdown cells included), and the positions of the code cells whose source
  satisfies a test.
\<close>

fun code_cells_from :: "nat \<Rightarrow> cell list \<Rightarrow> (nat \<times> stmt list) list" where
  "code_cells_from i [] = []"
| "code_cells_from i (Markdown # cs) = code_cells_from (Suc i) cs"
| "code_cells_from i (Code ss # cs) = (i, ss) # code_cells_from (Suc i) cs"

definition code_cells :: "cell list \<Rightarrow> (nat \<times> stmt list) list" where
  "code_cells nb = code_cells_from 0 nb"

definition cells_where :: "(stmt list \<Rightarrow> bool) \<Rightarrow> cell list \<Rightarrow> nat list" where
  "cells_where P nb = map fst (filter (\<lambda>(i, ss). P ss) (code_cells nb))"

definition cells_calling :: "string \<Rightarrow> cell list \<Rightarrow> nat list" where
  "cells_calling f nb = cells_where (\<lambda>ss. f \<in> set (calls_of ss)) nb"

definition notebook_source :: "cell list \<Rightarrow> stmt list" where
  "notebook_source nb = concat (map snd (code_cells nb))"

section \<open>The code cells of the six notebooks\<close>

text \<open>
  One definition for each code cell, named after the notebook and the position of the
  cell in the file, and one for each notebook: its cells in order, markdown cells as
  \<open>Markdown\<close>. The three notebooks of \<open>src/unnamed/part_001\<close> are, in the order of
  the file, \<open>workshop_2025\<close> (2025 Update of HyperSpy/LumiSpy, Glasgow),
  \<open>workshop_2023_03\<close> (Introduction to HyperSpy and LumiSpy, Grenoble, March 2023)
  and \<open>workshop_2023_07\<close> (Introduction to LumiSpy, Rouen, July 2023). A cell with
  no statement (empty, or comments only) is \<open>[]\<close>.
\<close>

subsection \<open>AttolightSEM sur to hspy\<close>

definition AttolightSEM_sur_to_hspy_cell_2 :: "stmt list" where
  "AttolightSEM_sur_to_hspy_cell_2 =
     [Magic ''%matplotlib widget'',
      Import [(''hyperspy.api'', ''hs'')],
      Import [(''lumispy'', ''lum'')],
      Import [(''os'', ''''), (''glob'', '''')]]"

definition AttolightSEM_sur_to_hspy_cell_5 :: "stmt list" where
  "AttolightSEM_sur_to_hspy_cell_5 =
     [Assign [Name ''root_folder''] (Str ''demo-files/load_from_AttoLightSEM/''),
      Assign [Name ''path'']
        (Call (Attribute (Attribute (Name ''os'') ''path'') ''join'')
           [Name ''root_folder'', Str ''HYPCard.sur'']),
      Assign [Name ''cl'']
        (Call (Attribute (Name ''hs'') ''load'')
           [Name ''path'', Keyword ''signal_type'' (Str ''CL_SEM'')]),
      Expr (Name ''cl'')]"

definition AttolightSEM_sur_to_hspy_cell_6 :: "stmt list" where
  "AttolightSEM_sur_to_hspy_cell_6 =
     [Expr (Call (Attribute (Name ''cl'') ''plot'') [])]"

definition AttolightSEM_sur_to_hspy_cell_8 :: "stmt list" where
  "AttolightSEM_sur_to_hspy_cell_8 =
     [Expr (Attribute (Name ''cl'') ''metadata'')]"

definition AttolightSEM_sur_to_hspy_cell_9 :: "stmt list" where
  "AttolightSEM_sur_to_hspy_cell_9 =
     [Expr
        (Attribute
           (Attribute (Attribute (Name ''cl'') ''original_metadata'') ''Object_0_Channel_0'')
           ''Parsed'')]"

definition AttolightSEM_sur_to_hspy_cell_12 :: "stmt list" where
  "AttolightSEM_sur_to_hspy_cell_12 =
     [Try
        [Assign [Name ''bkg_path'']
           (Call (Attribute (Attribute (Name ''os'') ''path'') ''join'')
              [Name ''root_folder'', Str ''*.txt'']),
         Assign [Name ''bkg_path'']
           (Subscript (Call (Attribute (Name ''glob'') ''glob'') [Name ''bkg_path'']) (Num ''0''))]
        [ExceptHandler (Name ''IndexError'')
           [Expr
              (Call (Name ''print'') [Str ''Please, specify a `background.txt` file path below:'']),
            Assign [Name ''bkg_path''] (Str '''')]]]"

definition AttolightSEM_sur_to_hspy_cell_13 :: "stmt list" where
  "AttolightSEM_sur_to_hspy_cell_13 =
     [Import [(''numpy'', ''np'')],
      Assign [Name ''cl_bkg'']
        (Subscript (Call (Attribute (Name ''np'') ''loadtxt'') [Name ''bkg_path'']) (Num ''1'')),
      Expr (Call (Name ''print'') [Attribute (Name ''cl_bkg'') ''shape'']),
      Assign [Name ''cl''] (BinOp (Name ''cl'') ''-'' (Name ''cl_bkg''))]"

definition AttolightSEM_sur_to_hspy_cell_15 :: "stmt list" where
  "AttolightSEM_sur_to_hspy_cell_15 =
     [Assign [Name ''calibration_factor''] (Num ''131072''),
      Assign [Name ''grating'']
        (Call (Name ''int'')
           [Attribute
              (Attribute
                 (Attribute
                    (Attribute (Attribute (Name ''cl'') ''original_metadata'')
                       ''Object_0_Channel_0'')
                    ''Parsed'')
                 ''SPECTROMETER'')
              ''Grating__Groove_Density'']),
      If (Compare (Name ''grating'') ''=='' (Num ''150''))
        [Assign [Name ''correction_factor_grating''] (Num ''2.73E-04'')]
        [If (Compare (Name ''grating'') ''=='' (Num ''600''))
           [Assign [Name ''correction_factor_grating''] (Num ''6.693659836087227e-05'')]
           [Raise (Call (Name ''ImportError'') [Str ''Grating correction not available''])]],
      Assign [Name ''fov'']
        (BinOp
           (Attribute
              (Attribute
                 (Attribute
                    (Attribute (Attribute (Name ''cl'') ''original_metadata'')
                       ''Object_0_Channel_0'')
                    ''Parsed'')
                 ''SITE_IMAGE'')
              ''Field_of_view'')
           ''*''
           (Num ''1e6'')),
      Assign [Name ''grating_calibrations'']
        (DictE [Str ''cal_factor'', Str ''corr_factor_grating'', Str ''field_of_view_um'']
           [Name ''calibration_factor'', Name ''correction_factor_grating'', Name ''fov''])]"

definition AttolightSEM_sur_to_hspy_cell_16 :: "stmt list" where
  "AttolightSEM_sur_to_hspy_cell_16 =
     [Expr
        (Call (Attribute (Name ''cl'') ''correct_grating_shift'')
           [Starred (Call (Attribute (Name ''grating_calibrations'') ''values'') [])])]"

definition AttolightSEM_sur_to_hspy_cell_18 :: "stmt list" where
  "AttolightSEM_sur_to_hspy_cell_18 =
     [Assign [Name ''cl'']
        (Call (Attribute (Name ''cl'') ''crop_edges'') [Keyword ''crop_px'' (Num ''5'')])]"

definition AttolightSEM_sur_to_hspy_cell_20 :: "stmt list" where
  "AttolightSEM_sur_to_hspy_cell_20 =
     [Expr
        (Call (Attribute (Name ''cl'') ''remove_spikes'')
           [Keyword ''inplace'' (Constant ''True'')])]"

definition AttolightSEM_sur_to_hspy_cell_23 :: "stmt list" where
  "AttolightSEM_sur_to_hspy_cell_23 =
     [Expr (Call (Attribute (Name ''cl'') ''plot'') []),
      Expr (Call (Attribute (Call (Attribute (Name ''cl'') ''mean'') []) ''plot'') [])]"

definition AttolightSEM_sur_to_hspy_cell_25 :: "stmt list" where
  "AttolightSEM_sur_to_hspy_cell_25 =
     []"

definition AttolightSEM_sur_to_hspy :: "cell list" where
  "AttolightSEM_sur_to_hspy =
     [Markdown, Markdown, Code AttolightSEM_sur_to_hspy_cell_2, Markdown, Markdown,
      Code AttolightSEM_sur_to_hspy_cell_5, Code AttolightSEM_sur_to_hspy_cell_6, Markdown,
      Code AttolightSEM_sur_to_hspy_cell_8, Code AttolightSEM_sur_to_hspy_cell_9, Markdown,
      Markdown, Code AttolightSEM_sur_to_hspy_cell_12, Code AttolightSEM_sur_to_hspy_cell_13,
      Markdown, Code AttolightSEM_sur_to_hspy_cell_15, Code AttolightSEM_sur_to_hspy_cell_16,
      Markdown, Code AttolightSEM_sur_to_hspy_cell_18, Markdown,
      Code AttolightSEM_sur_to_hspy_cell_20, Markdown, Markdown,
      Code AttolightSEM_sur_to_hspy_cell_23, Markdown, Code AttolightSEM_sur_to_hspy_cell_25]"

subsection \<open>AttolightSEM HYP\<close>

definition AttolightSEM_HYP_cell_2 :: "stmt list" where
  "AttolightSEM_HYP_cell_2 =
     [Magic ''%matplotlib qt'',
      Import [(''lumispy'', ''lum'')]]"

definition AttolightSEM_HYP_cell_5 :: "stmt list" where
  "AttolightSEM_HYP_cell_5 =
     [Assign [Name ''path''] (Str ''demo-files/load_from_AttoLightSEM/HYPCard.bin''),
      Assign [Name ''cl_sem''] (Call (Attribute (Name ''lum'') ''load'') [Name ''path'']),
      Expr (Name ''cl_sem'')]"

definition AttolightSEM_HYP_cell_6 :: "stmt list" where
  "AttolightSEM_HYP_cell_6 =
     [Expr (Call (Attribute (Name ''cl_sem'') ''plot'') [])]"

definition AttolightSEM_HYP_cell_9 :: "stmt list" where
  "AttolightSEM_HYP_cell_9 =
     [Expr
        (Compare
           (Attribute (Attribute (Attribute (Name ''cl_sem'') ''metadata'') ''Signal'')
              ''background'')
           ''is not''
           (Constant ''None''))]"

definition AttolightSEM_HYP_cell_11 :: "stmt list" where
  "AttolightSEM_HYP_cell_11 =
     [Assign [Name ''cl_sem_bkg''] (Name ''cl_sem''),
      Assign [Name ''cl_sem_bkg'']
        (Call (Attribute (Name ''cl_sem'') ''background_subtraction'') [])]"

definition AttolightSEM_HYP_cell_13 :: "stmt list" where
  "AttolightSEM_HYP_cell_13 =
     [Expr (Call (Attribute (Name ''cl_sem_bkg'') ''correct_grating_shift'') [])]"

definition AttolightSEM_HYP_cell_15 :: "stmt list" where
  "AttolightSEM_HYP_cell_15 =
     [Assign [Name ''cl_sem_bkg'']
        (Call (Attribute (Name ''cl_sem_bkg'') ''crop_edges'') [Keyword ''crop_px'' (Num ''5'')])]"

definition AttolightSEM_HYP_cell_17 :: "stmt list" where
  "AttolightSEM_HYP_cell_17 =
     [Assign [Name ''cl_sem_bkg_spikes'']
        (Call (Attribute (Name ''cl_sem_bkg'') ''cosmic_rays_subtraction'')
           [Keyword ''extra_percent'' (Num ''50'')])]"

definition AttolightSEM_HYP_cell_19 :: "stmt list" where
  "AttolightSEM_HYP_cell_19 =
     [Expr (Call (Attribute (Name ''cl_sem_bkg_spikes'') ''plot'') [])]"

definition AttolightSEM_HYP_cell_21 :: "stmt list" where
  "AttolightSEM_HYP_cell_21 =
     [Expr
        (Call
           (Attribute
              (Call (Attribute (Attribute (Name ''cl_sem_bkg_spikes'') ''T'') ''mean'') [])
              ''plot'')
           [Keyword ''cmap'' (Str ''viridis'')])]"

definition AttolightSEM_HYP_cell_23 :: "stmt list" where
  "AttolightSEM_HYP_cell_23 =
     [Expr
        (Call (Attribute (Call (Attribute (Name ''cl_sem_bkg_spikes'') ''mean'') []) ''plot'') [])]"

definition AttolightSEM_HYP_cell_26 :: "stmt list" where
  "AttolightSEM_HYP_cell_26 =
     [Import [(''os'', '''')],
      Assign [Name ''se_path'']
        (Call (Attribute (Attribute (Name ''os'') ''path'') ''join'')
           [Subscript
              (Call (Attribute (Attribute (Name ''os'') ''path'') ''split'') [Name ''path''])
              (Num ''0''),
            Str ''SE_Scan*.png'']),
      Assign [Name ''SE''] (Call (Attribute (Name ''lum'') ''hyperspyload'') [Name ''se_path''])]"

definition AttolightSEM_HYP_cell_27 :: "stmt list" where
  "AttolightSEM_HYP_cell_27 =
     [Try
        [Assign [Name ''crop'']
           (Attribute (Attribute (Attribute (Name ''cl_sem_bkg_spikes'') ''metadata'') ''Signal'')
              ''cropped_edges''),
         Assign [Name ''size_x'']
           (Attribute
              (Attribute
                 (Attribute (Attribute (Name ''cl_sem_bkg_spikes'') ''metadata'')
                    ''Acquisition_instrument'')
                 ''SEM'')
              ''resolution_x''),
         Assign [Name ''size_y'']
           (Attribute
              (Attribute
                 (Attribute (Attribute (Name ''cl_sem_bkg_spikes'') ''metadata'')
                    ''Acquisition_instrument'')
                 ''SEM'')
              ''resolution_x''),
         Assign [Name ''SE'']
           (Subscript (Attribute (Name ''SE'') ''isig'')
              (TupleE
                 [Slice (Name ''crop'') (BinOp (Name ''size_x'') ''-'' (Name ''crop'')) Absent,
                  Slice (Name ''crop'') (BinOp (Name ''size_y'') ''-'' (Name ''crop'')) Absent])),
         Expr
           (Call (Attribute (Name ''cl_sem_bkg_spikes'') ''plot'')
              [Keyword ''navigator'' (Name ''SE'')])]
        [ExceptHandler Absent
           [Expr
              (Call (Attribute (Name ''cl_sem_bkg_spikes'') ''plot'')
                 [Keyword ''navigator'' (Name ''SE'')])]]]"

definition AttolightSEM_HYP_cell_29 :: "stmt list" where
  "AttolightSEM_HYP_cell_29 =
     [Expr (Attribute (Name ''cl_sem_bkg_spikes'') ''metadata'')]"

definition AttolightSEM_HYP_cell_30 :: "stmt list" where
  "AttolightSEM_HYP_cell_30 =
     []"

definition AttolightSEM_HYP :: "cell list" where
  "AttolightSEM_HYP =
     [Markdown, Markdown, Code AttolightSEM_HYP_cell_2, Markdown, Markdown,
      Code AttolightSEM_HYP_cell_5, Code AttolightSEM_HYP_cell_6, Markdown, Markdown,
      Code AttolightSEM_HYP_cell_9, Markdown, Code AttolightSEM_HYP_cell_11, Markdown,
      Code AttolightSEM_HYP_cell_13, Markdown, Code AttolightSEM_HYP_cell_15, Markdown,
      Code AttolightSEM_HYP_cell_17, Markdown, Code AttolightSEM_HYP_cell_19, Markdown,
      Code AttolightSEM_HYP_cell_21, Markdown, Code AttolightSEM_HYP_cell_23, Markdown,
      Markdown, Code AttolightSEM_HYP_cell_26, Code AttolightSEM_HYP_cell_27, Markdown,
      Code AttolightSEM_HYP_cell_29, Code AttolightSEM_HYP_cell_30]"

subsection \<open>GatanSEM dm\<close>

definition GatanSEM_dm_cell_2 :: "stmt list" where
  "GatanSEM_dm_cell_2 =
     [Magic ''%matplotlib widget'',
      Import [(''lumispy'', ''lum'')],
      Import [(''hyperspy.api'', ''hs'')]]"

definition GatanSEM_dm_cell_4 :: "stmt list" where
  "GatanSEM_dm_cell_4 =
     [Assign [Name ''cl_spec'']
        (Call (Attribute (Name ''hs'') ''load'')
           [Str ''demo-files/load_from_GatanFiles/Test-spectrum_ZnO-NWs.dm4''])]"

definition GatanSEM_dm_cell_6 :: "stmt list" where
  "GatanSEM_dm_cell_6 =
     [Expr (Name ''cl_spec'')]"

definition GatanSEM_dm_cell_8 :: "stmt list" where
  "GatanSEM_dm_cell_8 =
     [Expr (Call (Attribute (Name ''cl_spec'') ''set_signal_type'') [Str ''CL_SEM''])]"

definition GatanSEM_dm_cell_9 :: "stmt list" where
  "GatanSEM_dm_cell_9 =
     [Expr (Name ''cl_spec'')]"

definition GatanSEM_dm_cell_10 :: "stmt list" where
  "GatanSEM_dm_cell_10 =
     [Expr (Call (Attribute (Name ''cl_spec'') ''plot'') [])]"

definition GatanSEM_dm_cell_12 :: "stmt list" where
  "GatanSEM_dm_cell_12 =
     [Assign [Name ''cl_spec_eV'']
        (Call (Attribute (Name ''cl_spec'') ''to_eV'') [Keyword ''inplace'' (Constant ''False'')])]"

definition GatanSEM_dm_cell_13 :: "stmt list" where
  "GatanSEM_dm_cell_13 =
     [Expr (Call (Attribute (Name ''cl_spec_eV'') ''plot'') [])]"

definition GatanSEM_dm_cell_15 :: "stmt list" where
  "GatanSEM_dm_cell_15 =
     [Assign [Name ''cl_linescan'']
        (Call (Attribute (Name ''hs'') ''load'')
           [Str ''demo-files/load_from_GatanFiles/Test-linescan_InGaAs-NWs.dm4''])]"

definition GatanSEM_dm_cell_17 :: "stmt list" where
  "GatanSEM_dm_cell_17 =
     [Expr (Call (Attribute (Name ''cl_linescan'') ''plot'') [])]"

definition GatanSEM_dm_cell_19 :: "stmt list" where
  "GatanSEM_dm_cell_19 =
     [Expr
        (Call (Attribute (Name ''cl_linescan'') ''remove_background'')
           [Keyword ''background_type'' (Str ''Offset'')])]"

definition GatanSEM_dm_cell_21 :: "stmt list" where
  "GatanSEM_dm_cell_21 =
     [Assign [Name ''cl_linescan'']
        (Subscript (Attribute (Name ''cl_linescan'') ''isig'')
           (Slice Absent (UnaryOp ''-'' (Num ''3'')) Absent)),
      Expr (Call (Attribute (Name ''cl_linescan'') ''plot'') [])]"

definition GatanSEM_dm_cell_23 :: "stmt list" where
  "GatanSEM_dm_cell_23 =
     [Expr (Call (Attribute (Name ''cl_linescan'') ''spikes_removal_tool'') [])]"

definition GatanSEM_dm_cell_25 :: "stmt list" where
  "GatanSEM_dm_cell_25 =
     [Expr (Attribute (Name ''cl_spec'') ''metadata'')]"

definition GatanSEM_dm_cell_27 :: "stmt list" where
  "GatanSEM_dm_cell_27 =
     [Expr (Attribute (Name ''cl_spec'') ''original_metadata'')]"

definition GatanSEM_dm_cell_29 :: "stmt list" where
  "GatanSEM_dm_cell_29 =
     [Expr
        (Call (Attribute (Attribute (Name ''cl_spec'') ''metadata'') ''set_item'')
           [Str ''General.title'', Str ''demo spectrum'']),
      Expr
        (Call (Attribute (Attribute (Name ''cl_spec'') ''metadata'') ''set_item'')
           [Str ''General.comment'', Str ''I love using LumiSpy''])]"

definition GatanSEM_dm_cell_30 :: "stmt list" where
  "GatanSEM_dm_cell_30 =
     [Expr (Attribute (Name ''cl_spec'') ''metadata'')]"

definition GatanSEM_dm_cell_32 :: "stmt list" where
  "GatanSEM_dm_cell_32 =
     [Expr (Call (Attribute (Name ''cl_spec'') ''save'') [Str ''cl_test_spectrum.hspy''])]"

definition GatanSEM_dm_cell_34 :: "stmt list" where
  "GatanSEM_dm_cell_34 =
     []"

definition GatanSEM_dm :: "cell list" where
  "GatanSEM_dm =
     [Markdown, Markdown, Code GatanSEM_dm_cell_2, Markdown, Code GatanSEM_dm_cell_4,
      Markdown, Code GatanSEM_dm_cell_6, Markdown, Code GatanSEM_dm_cell_8,
      Code GatanSEM_dm_cell_9, Code GatanSEM_dm_cell_10, Markdown, Code GatanSEM_dm_cell_12,
      Code GatanSEM_dm_cell_13, Markdown, Code GatanSEM_dm_cell_15, Markdown,
      Code GatanSEM_dm_cell_17, Markdown, Code GatanSEM_dm_cell_19, Markdown,
      Code GatanSEM_dm_cell_21, Markdown, Code GatanSEM_dm_cell_23, Markdown,
      Code GatanSEM_dm_cell_25, Markdown, Code GatanSEM_dm_cell_27, Markdown,
      Code GatanSEM_dm_cell_29, Code GatanSEM_dm_cell_30, Markdown, Code GatanSEM_dm_cell_32,
      Markdown, Code GatanSEM_dm_cell_34]"

subsection \<open>workshop 2025\<close>

definition workshop_2025_cell_2 :: "stmt list" where
  "workshop_2025_cell_2 =
     [Import [(''numpy'', ''np'')],
      Import [(''matplotlib.pyplot'', ''plt'')],
      Import [(''hyperspy.api'', ''hs'')],
      Import [(''lumispy'', ''lum'')],
      Magic ''%matplotlib qt5'']"

definition workshop_2025_cell_5 :: "stmt list" where
  "workshop_2025_cell_5 =
     [Assign [Name ''spectra_map'']
        (Call (Attribute (Name ''hs'') ''load'')
           [Str ''../demo-files/CLEBIC2025/InGaN_hyperspectral.dm4''])]"

definition workshop_2025_cell_7 :: "stmt list" where
  "workshop_2025_cell_7 =
     [Expr (Name ''spectra_map'')]"

definition workshop_2025_cell_9 :: "stmt list" where
  "workshop_2025_cell_9 =
     [Expr (Attribute (Name ''spectra_map'') ''axes_manager'')]"

definition workshop_2025_cell_11 :: "stmt list" where
  "workshop_2025_cell_11 =
     [Expr (Call (Attribute (Name ''spectra_map'') ''plot'') [])]"

definition workshop_2025_cell_13 :: "stmt list" where
  "workshop_2025_cell_13 =
     [Expr (Attribute (Name ''spectra_map'') ''metadata'')]"

definition workshop_2025_cell_15 :: "stmt list" where
  "workshop_2025_cell_15 =
     [Expr (Attribute (Name ''spectra_map'') ''data'')]"

definition workshop_2025_cell_17 :: "stmt list" where
  "workshop_2025_cell_17 =
     [Expr
        (Call
           (Attribute
              (Subscript (Attribute (Name ''spectra_map'') ''inav'')
                 (TupleE
                    [Slice (Num ''0'') (Num ''25'') Absent, Slice (Num ''0'') (Num ''25'') Absent]))
              ''plot'')
           [])]"

definition workshop_2025_cell_19 :: "stmt list" where
  "workshop_2025_cell_19 =
     [Expr
        (Call (Attribute (Attribute (Name ''hs'') ''plot'') ''plot_roi_map'')
           [Name ''spectra_map'',
            Keyword ''rois'' (Num ''2''),
            Keyword ''single_figure'' (Constant ''True'')])]"

definition workshop_2025_cell_22 :: "stmt list" where
  "workshop_2025_cell_22 =
     [Assign [Name ''transient_map'']
        (Call (Attribute (Name ''hs'') ''load'')
           [Str ''../demo-files/CLEBIC2025/InGaN_transient_map.hspy'']),
      Expr (Call (Attribute (Name ''transient_map'') ''plot'') [])]"

definition workshop_2025_cell_24 :: "stmt list" where
  "workshop_2025_cell_24 =
     [Expr (Call (Name ''dir'') [Attribute (Attribute (Name ''hs'') ''model'') ''components1D''])]"

definition workshop_2025_cell_26 :: "stmt list" where
  "workshop_2025_cell_26 =
     [Assign [Name ''Decay1Exp'']
        (Call
           (Attribute (Attribute (Attribute (Name ''hs'') ''model'') ''components1D'')
              ''Expression'')
           [Keyword ''expression''
              (Str
                 ''1/2*height*exp(-1*((x-t0) - sigma**2/(2*tau))/tau)*                    (1 + erf(((x-t0) - sigma**2/tau)/(sqrt(2)*sigma)))''),
            Keyword ''name'' (Str ''Decay1Exp''),
            Keyword ''height'' (Num ''400''),
            Keyword ''t0'' (Num ''0.0''),
            Keyword ''tau'' (Num ''250''),
            Keyword ''sigma'' (Num ''25''),
            Keyword ''position'' (Str ''t0''),
            Keyword ''module'' (ListE [Str ''numpy'', Str ''scipy''])])]"

definition workshop_2025_cell_28 :: "stmt list" where
  "workshop_2025_cell_28 =
     [Assign [Name ''t''] (Name ''Decay1Exp''),
      Assign [Name ''transient_fit'']
        (Call (Attribute (Name ''transient_map'') ''create_model'') []),
      Expr (Call (Attribute (Name ''transient_fit'') ''append'') [Name ''t'']),
      Assign [Attribute (Attribute (Name ''t'') ''height'') ''value''] (Num ''300''),
      Assign [Attribute (Attribute (Name ''t'') ''t0'') ''value''] (Num ''2.69''),
      Assign [Attribute (Attribute (Name ''t'') ''tau'') ''value''] (Num ''0.07660186751369041''),
      Assign [Attribute (Attribute (Name ''t'') ''sigma'') ''value''] (Num ''0.114''),
      Expr (Call (Attribute (Name ''transient_fit'') ''multifit'') [])]"

definition workshop_2025_cell_30 :: "stmt list" where
  "workshop_2025_cell_30 =
     [Expr
        (Call (Attribute (Name ''transient_fit'') ''plot'')
           [Keyword ''plot_components'' (Constant ''True'')])]"

definition workshop_2025_cell_32 :: "stmt list" where
  "workshop_2025_cell_32 =
     [Assign [Name ''tau_fitted'']
        (Call (Attribute (Attribute (Name ''t'') ''tau'') ''as_signal'') []),
      Expr
        (Call (Attribute (Name ''tau_fitted'') ''plot'')
           [Keyword ''cmap'' (Str ''plasma''), Keyword ''title'' (Str ''tau (ns)'')])]"

definition workshop_2025_cell_34 :: "stmt list" where
  "workshop_2025_cell_34 =
     [Assign [Name ''transient_map_norm'']
        (Call (Attribute (Name ''transient_map'') ''map'')
           [Lambda [''I''] (BinOp (Name ''I'') ''/'' (Call (Attribute (Name ''I'') ''max'') [])),
            Keyword ''inplace'' (Constant ''False'')]),
      Assign [Name ''tau_integrated'']
        (Call (Attribute (Name ''transient_map_norm'') ''integrate1D'')
           [Keyword ''axis'' (Num ''2'')])]"

definition workshop_2025_cell_36 :: "stmt list" where
  "workshop_2025_cell_36 =
     [Expr
        (Call (Attribute (Attribute (Name ''hs'') ''plot'') ''plot_images'')
           [ListE [Name ''tau_integrated'', Name ''tau_fitted''],
            Keyword ''cmap'' (Str ''plasma''),
            Keyword ''axes_decor'' (Constant ''None''),
            Keyword ''label''
              (ListE
                 [Str (''$'' @ [CHR 0xCF, CHR 0x84] @ ''$ integrated (ns)''),
                  Str (''$'' @ [CHR 0xCF, CHR 0x84] @ ''$ fit (ns)'')]),
            Keyword ''scalebar'' (Str ''all'')])]"

definition workshop_2025_cell_40 :: "stmt list" where
  "workshop_2025_cell_40 =
     [Assign [Name ''streak01'']
        (Call (Attribute (Name ''hs'') ''load'')
           [Str ''../demo-files/CLEBIC2025/AlN_HR_streak_image.hspy'']),
      Expr (Name ''streak01'')]"

definition workshop_2025_cell_41 :: "stmt list" where
  "workshop_2025_cell_41 =
     [Expr (Call (Attribute (Name ''streak01'') ''plot'') [Keyword ''cmap'' (Str ''turbo'')])]"

definition workshop_2025_cell_43 :: "stmt list" where
  "workshop_2025_cell_43 =
     [Assign [Name ''fig'']
        (Call (Attribute (Name ''plt'') ''figure'')
           [Keyword ''figsize'' (ListE [Num ''8'', Num ''3.8''])]),
      Assign [Name ''subfigs'']
        (Call (Attribute (Name ''fig'') ''subfigures'')
           [Num ''1'', Num ''2'', Keyword ''wspace'' (Num ''0.07'')]),
      Assign [Name ''roi1'']
        (Call (Attribute (Attribute (Name ''hs'') ''roi'') ''SpanROI'')
           [Keyword ''left'' (Num ''204.8''), Keyword ''right'' (Num ''204.9'')]),
      Assign [Name ''roi2'']
        (Call (Attribute (Attribute (Name ''hs'') ''roi'') ''SpanROI'')
           [Keyword ''left'' (Num ''205''), Keyword ''right'' (Num ''205.1'')]),
      Expr
        (Call (Attribute (Name ''streak01'') ''plot'')
           [Keyword ''fig'' (Subscript (Name ''subfigs'') (Num ''0'')),
            Keyword ''colorbar'' (Constant ''False''),
            Keyword ''title'' (Str ''Streak image''),
            Keyword ''cmap'' (Str ''turbo'')]),
      Assign [Name ''sliced_signal1'']
        (Call (Attribute (Name ''roi1'') ''interactive'')
           [Name ''streak01'',
            Keyword ''axes''
              (Subscript (Attribute (Name ''streak01'') ''axes_manager'') (Num ''0'')),
            Keyword ''color'' (Str ''blue'')]),
      Assign [Name ''sliced_signal2'']
        (Call (Attribute (Name ''roi2'') ''interactive'')
           [Name ''streak01'',
            Keyword ''axes''
              (Subscript (Attribute (Name ''streak01'') ''axes_manager'') (Num ''0'')),
            Keyword ''color'' (Str ''red'')]),
      Assign [Name ''integrated_sliced_signal1'']
        (Call (Attribute (Name ''hs'') ''interactive'')
           [Attribute (Name ''sliced_signal1'') ''sum'',
            Keyword ''axis''
              (Subscript (Attribute (Name ''sliced_signal1'') ''axes_manager'') (Num ''0'')),
            Keyword ''event'' (Attribute (Attribute (Name ''roi1'') ''events'') ''changed''),
            Keyword ''recompute_out_event'' (Constant ''None'')]),
      Assign [Name ''integrated_sliced_signal2'']
        (Call (Attribute (Name ''hs'') ''interactive'')
           [Attribute (Name ''sliced_signal2'') ''sum'',
            Keyword ''axis''
              (Subscript (Attribute (Name ''sliced_signal2'') ''axes_manager'') (Num ''0'')),
            Keyword ''event'' (Attribute (Attribute (Name ''roi2'') ''events'') ''changed''),
            Keyword ''recompute_out_event'' (Constant ''None'')]),
      Expr
        (Call (Attribute (Attribute (Name ''hs'') ''plot'') ''plot_spectra'')
           [ListE [Name ''integrated_sliced_signal1'', Name ''integrated_sliced_signal2''],
            Keyword ''color'' (ListE [Str ''blue'', Str ''red'']),
            Keyword ''normalise'' (Constant ''True''),
            Keyword ''fig'' (Subscript (Name ''subfigs'') (Num ''1''))])]"

definition workshop_2025_cell_45 :: "stmt list" where
  "workshop_2025_cell_45 =
     [Expr (Name ''integrated_sliced_signal1'')]"

definition workshop_2025_cell_48 :: "stmt list" where
  "workshop_2025_cell_48 =
     [Assign [Name ''streak02'']
        (Call (Attribute (Name ''hs'') ''load'')
           [Str ''../demo-files/CLEBIC2025/GaAsSb_streak_image.hspy'']),
      Expr (Attribute (Name ''streak02'') ''axes_manager'')]"

definition workshop_2025_cell_50 :: "stmt list" where
  "workshop_2025_cell_50 =
     [Expr
        (Call (Attribute (Name ''streak02'') ''to_eV'') [Keyword ''inplace'' (Constant ''True'')]),
      Expr (Attribute (Name ''streak02'') ''axes_manager'')]"

definition workshop_2025_cell_51 :: "stmt list" where
  "workshop_2025_cell_51 =
     [Expr (Call (Attribute (Name ''streak02'') ''plot'') [Keyword ''cmap'' (Str ''turbo'')])]"

definition workshop_2025_cell_53 :: "stmt list" where
  "workshop_2025_cell_53 =
     [Expr
        (Call
           (Attribute
              (Call (Attribute (Name ''streak02'') ''sum'') [Keyword ''axis'' (Str ''Time'')])
              ''plot'')
           [])]"

definition workshop_2025_cell_55 :: "stmt list" where
  "workshop_2025_cell_55 =
     [Assign [Name ''spectral_fit'']
        (Call (Attribute (Call (Attribute (Name ''streak02'') ''time2nav'') []) ''create_model'')
           []),
      Assign [TupleE [Name ''g1'', Name ''g2'']]
        (TupleE
           [Call
              (Attribute (Attribute (Attribute (Name ''hs'') ''model'') ''components1D'')
                 ''Gaussian'')
              [],
            Call
              (Attribute (Attribute (Attribute (Name ''hs'') ''model'') ''components1D'')
                 ''Gaussian'')
              []]),
      Expr
        (Call (Attribute (Name ''spectral_fit'') ''extend'') [TupleE [Name ''g1'', Name ''g2'']]),
      Assign [Attribute (Attribute (Name ''g1'') ''centre'') ''bmax''] (Num ''1.40''),
      Assign [Attribute (Attribute (Name ''g1'') ''centre'') ''bmin''] (Num ''1.39''),
      Assign [Attribute (Attribute (Name ''g1'') ''sigma'') ''bmax''] (Num ''0.04''),
      Assign [Attribute (Attribute (Name ''g2'') ''centre'') ''bmin''] (Num ''1.41''),
      Assign [Attribute (Attribute (Name ''g2'') ''sigma'') ''bmax''] (Num ''0.04''),
      Expr
        (Call (Attribute (Name ''spectral_fit'') ''multifit'')
           [Keyword ''bounded'' (Constant ''True'')])]"

definition workshop_2025_cell_57 :: "stmt list" where
  "workshop_2025_cell_57 =
     [Expr
        (Call (Attribute (Name ''spectral_fit'') ''plot'')
           [Keyword ''plot_components'' (Constant ''True'')])]"

definition workshop_2025_cell_59 :: "stmt list" where
  "workshop_2025_cell_59 =
     [Assign [Name ''transient1'']
        (Call (Attribute (Attribute (Name ''g1'') ''A'') ''as_signal'') []),
      Assign [Name ''transient2'']
        (Call (Attribute (Attribute (Name ''g2'') ''A'') ''as_signal'') [])]"

definition workshop_2025_cell_61 :: "stmt list" where
  "workshop_2025_cell_61 =
     [Assign [Name ''fig'']
        (Call (Attribute (Name ''plt'') ''figure'')
           [Keyword ''figsize'' (ListE [Num ''13'', Num ''3.6''])]),
      Assign [Name ''subfigs'']
        (Call (Attribute (Name ''fig'') ''subfigures'') [Num ''1'', Num ''3'']),
      Assign [Name ''ax1'']
        (Call (Attribute (Subscript (Name ''subfigs'') (Num ''1'')) ''add_subplot'')
           [Num ''1'', Num ''1'', Num ''1'']),
      Assign [Name ''ax2'']
        (Call (Attribute (Subscript (Name ''subfigs'') (Num ''2'')) ''add_subplot'')
           [Num ''1'', Num ''1'', Num ''1'']),
      Expr
        (Call (Attribute (Name ''streak02'') ''plot'')
           [Keyword ''cmap'' (Str ''turbo''),
            Keyword ''fig'' (Subscript (Name ''subfigs'') (Num ''0'')),
            Keyword ''title'' (Str '''')]),
      Assign [Name ''m'']
        (Call
           (Attribute (Attribute (Attribute (Name ''hs'') ''plot'') ''markers'') ''VerticalLines'')
           [Keyword ''offsets'' (ListE [Num ''1.394'', Num ''1.423'']),
            Keyword ''colors'' (ListE [Str ''m'', Str ''g''])]),
      Expr (Call (Attribute (Name ''streak02'') ''add_marker'') [Name ''m'']),
      Assign [Name ''fit''] (Call (Attribute (Name ''spectral_fit'') ''as_signal'') []),
      Assign [Name ''gaussian1'']
        (Call (Attribute (Name ''spectral_fit'') ''as_signal'')
           [Keyword ''component_list'' (ListE [Str ''Gaussian''])]),
      Assign [Name ''gaussian2'']
        (Call (Attribute (Name ''spectral_fit'') ''as_signal'')
           [Keyword ''component_list'' (ListE [Str ''Gaussian_0''])]),
      Assign [Name ''t''] (Num ''35''),
      Expr
        (Call (Attribute (Attribute (Name ''hs'') ''plot'') ''plot_spectra'')
           [ListE
              [Subscript (Attribute (Name ''streak02'') ''isig'')
                 (TupleE [Slice Absent Absent Absent, Name ''t'']),
               Subscript (Attribute (Name ''fit'') ''inav'') (Name ''t''),
               Subscript (Attribute (Name ''gaussian1'') ''inav'') (Name ''t''),
               Subscript (Attribute (Name ''gaussian2'') ''inav'') (Name ''t'')],
            Keyword ''ax'' (Name ''ax1''),
            Keyword ''color'' (ListE [Str ''grey'', Str ''k'', Str ''m'', Str ''green'']),
            Keyword ''alphas'' (Num ''0.5'')]),
      Expr (Call (Attribute (Name ''ax1'') ''set_xlabel'') [Str ''Energy (eV)'']),
      Expr (Call (Attribute (Name ''ax1'') ''set_ylabel'') [Str ''CL Intensity (arb. units)'']),
      Expr (Call (Attribute (Name ''ax1'') ''set_yticks'') [ListE []]),
      Expr
        (Call (Attribute (Attribute (Name ''hs'') ''plot'') ''plot_spectra'')
           [ListE [Name ''transient1'', Name ''transient2''],
            Keyword ''normalise'' (Constant ''True''),
            Keyword ''ax'' (Name ''ax2''),
            Keyword ''color'' (ListE [Str ''m'', Str ''green'']),
            Keyword ''alphas'' (Num ''0.5'')]),
      Expr (Call (Attribute (Name ''ax2'') ''set_yscale'') [Str ''log'']),
      Expr (Call (Attribute (Name ''ax2'') ''set_ylim'') [Num ''0.01'', Num ''1'']),
      Expr (Call (Attribute (Name ''ax2'') ''set_xlim'') [Num ''0'', Num ''250'']),
      Expr (Call (Attribute (Name ''ax2'') ''set_xlabel'') [Str ''Time (ps)'']),
      Expr (Call (Attribute (Name ''ax2'') ''set_ylabel'') [Str ''CL Intensity (norm.)'']),
      Expr (Call (Attribute (Name ''ax2'') ''set_yticks'') [ListE []])]"

definition workshop_2025_cell_62 :: "stmt list" where
  "workshop_2025_cell_62 =
     []"

definition workshop_2025 :: "cell list" where
  "workshop_2025 =
     [Markdown, Markdown, Code workshop_2025_cell_2, Markdown, Markdown,
      Code workshop_2025_cell_5, Markdown, Code workshop_2025_cell_7, Markdown,
      Code workshop_2025_cell_9, Markdown, Code workshop_2025_cell_11, Markdown,
      Code workshop_2025_cell_13, Markdown, Code workshop_2025_cell_15, Markdown,
      Code workshop_2025_cell_17, Markdown, Code workshop_2025_cell_19, Markdown, Markdown,
      Code workshop_2025_cell_22, Markdown, Code workshop_2025_cell_24, Markdown,
      Code workshop_2025_cell_26, Markdown, Code workshop_2025_cell_28, Markdown,
      Code workshop_2025_cell_30, Markdown, Code workshop_2025_cell_32, Markdown,
      Code workshop_2025_cell_34, Markdown, Code workshop_2025_cell_36, Markdown, Markdown,
      Markdown, Code workshop_2025_cell_40, Code workshop_2025_cell_41, Markdown,
      Code workshop_2025_cell_43, Markdown, Code workshop_2025_cell_45, Markdown, Markdown,
      Code workshop_2025_cell_48, Markdown, Code workshop_2025_cell_50,
      Code workshop_2025_cell_51, Markdown, Code workshop_2025_cell_53, Markdown,
      Code workshop_2025_cell_55, Markdown, Code workshop_2025_cell_57, Markdown,
      Code workshop_2025_cell_59, Markdown, Code workshop_2025_cell_61,
      Code workshop_2025_cell_62]"

subsection \<open>workshop 2023 03\<close>

definition workshop_2023_03_cell_2 :: "stmt list" where
  "workshop_2023_03_cell_2 =
     [Magic ''%matplotlib widget'',
      Import [(''hyperspy.api'', ''hs'')],
      Import [(''lumispy'', ''lum'')],
      Import [(''matplotlib.pyplot'', ''plt'')],
      Import [(''numpy'', ''np'')]]"

definition workshop_2023_03_cell_4 :: "stmt list" where
  "workshop_2023_03_cell_4 =
     [Assign [Name ''cl1'']
        (Call (Attribute (Name ''hs'') ''load'') [Str ''../demo-files/01/01_demo.hspy'']),
      Assign [Name ''cl2'']
        (Call (Attribute (Name ''hs'') ''load'')
           [Str ''../demo-files/load_from_GatanFiles/asymmetric-peak_map.dm4'']),
      Assign [Name ''cl3'']
        (Call (Attribute (Name ''hs'') ''load'')
           [Str ''../demo-files/load_from_GatanFiles/quantum-emitters_map.dm4''])]"

definition workshop_2023_03_cell_6 :: "stmt list" where
  "workshop_2023_03_cell_6 =
     [Magic ''hs.load?'']"

definition workshop_2023_03_cell_8 :: "stmt list" where
  "workshop_2023_03_cell_8 =
     [Expr (Name ''cl2'')]"

definition workshop_2023_03_cell_10 :: "stmt list" where
  "workshop_2023_03_cell_10 =
     [Expr (Attribute (Name ''cl2'') ''axes_manager'')]"

definition workshop_2023_03_cell_12 :: "stmt list" where
  "workshop_2023_03_cell_12 =
     [Expr (Attribute (Name ''cl2'') ''data'')]"

definition workshop_2023_03_cell_14 :: "stmt list" where
  "workshop_2023_03_cell_14 =
     [Expr (Attribute (Name ''cl2'') ''metadata'')]"

definition workshop_2023_03_cell_16 :: "stmt list" where
  "workshop_2023_03_cell_16 =
     [Expr (Attribute (Name ''cl2'') ''original_metadata'')]"

definition workshop_2023_03_cell_18 :: "stmt list" where
  "workshop_2023_03_cell_18 =
     [Expr (Call (Attribute (Name ''cl1'') ''plot'') [])]"

definition workshop_2023_03_cell_20 :: "stmt list" where
  "workshop_2023_03_cell_20 =
     [Expr (Call (Attribute (Call (Attribute (Name ''cl1'') ''mean'') []) ''plot'') [])]"

definition workshop_2023_03_cell_22 :: "stmt list" where
  "workshop_2023_03_cell_22 =
     [Expr
        (Call
           (Attribute
              (Subscript (Attribute (Name ''cl1'') ''inav'')
                 (TupleE
                    [Slice (Num ''2'') (Num ''23'') Absent, Slice (Num ''0'') (Num ''20'') Absent]))
              ''plot'')
           [])]"

definition workshop_2023_03_cell_24 :: "stmt list" where
  "workshop_2023_03_cell_24 =
     [Expr
        (Call
           (Attribute
              (Call
                 (Attribute
                    (Subscript (Attribute (Name ''cl1'') ''isig'')
                       (Slice (Num ''440.'') (Num ''600.'') Absent))
                    ''mean'')
                 [])
              ''plot'')
           [])]"

definition workshop_2023_03_cell_26 :: "stmt list" where
  "workshop_2023_03_cell_26 =
     [Expr
        (Call (Attribute (Call (Attribute (Attribute (Name ''cl1'') ''T'') ''mean'') []) ''plot'')
           [Keyword ''cmap'' (Str ''viridis'')])]"

definition workshop_2023_03_cell_28 :: "stmt list" where
  "workshop_2023_03_cell_28 =
     [Expr
        (Call
           (Attribute
              (Call
                 (Attribute
                    (Attribute
                       (Subscript (Attribute (Name ''cl1'') ''isig'')
                          (Slice (Num ''480.'') (Num ''550.'') Absent))
                       ''T'')
                    ''mean'')
                 [])
              ''plot'')
           [Keyword ''cmap'' (Str ''viridis'')])]"

definition workshop_2023_03_cell_30 :: "stmt list" where
  "workshop_2023_03_cell_30 =
     [Assign [Name ''im''] (Attribute (Name ''cl1'') ''T''),
      Expr (Call (Attribute (Name ''im'') ''plot'') []),
      Assign [Name ''roi1'']
        (Call (Attribute (Attribute (Name ''hs'') ''roi'') ''SpanROI'')
           [Keyword ''left'' (Num ''455''), Keyword ''right'' (Num ''485'')]),
      Assign [Name ''im_roi1'']
        (Call (Attribute (Name ''roi1'') ''interactive'')
           [Name ''im'', Keyword ''color'' (Str ''red'')]),
      Assign [Name ''im_roi1_mean'']
        (Call (Attribute (Name ''hs'') ''interactive'')
           [Attribute (Name ''im_roi1'') ''mean'',
            Keyword ''event'' (Attribute (Attribute (Name ''roi1'') ''events'') ''changed''),
            Keyword ''recompute_out_event'' (Constant ''None'')]),
      Expr
        (Call (Attribute (Name ''im_roi1_mean'') ''plot'') [Keyword ''cmap'' (Str ''viridis'')])]"

definition workshop_2023_03_cell_32 :: "stmt list" where
  "workshop_2023_03_cell_32 =
     [Expr (Attribute (Name ''cl1'') ''axes_manager'')]"

definition workshop_2023_03_cell_34 :: "stmt list" where
  "workshop_2023_03_cell_34 =
     [Assign [Name ''cl1_eV'']
        (Call (Attribute (Name ''cl1'') ''to_eV'') [Keyword ''inplace'' (Constant ''False'')])]"

definition workshop_2023_03_cell_36 :: "stmt list" where
  "workshop_2023_03_cell_36 =
     [Expr (Attribute (Name ''cl1_eV'') ''axes_manager'')]"

definition workshop_2023_03_cell_38 :: "stmt list" where
  "workshop_2023_03_cell_38 =
     [Expr (Call (Attribute (Name ''cl1_eV'') ''plot'') [])]"

definition workshop_2023_03_cell_40 :: "stmt list" where
  "workshop_2023_03_cell_40 =
     [Assign [Name ''axis'']
        (DictE [Str ''offset'', Str ''scale'', Str ''units'', Str ''size'', Str ''name'']
           [Num ''300'', Num ''4'', Str ''nm'', Num ''101'', Str ''Wavelength'']),
      Assign [Name ''s'']
        (Call (Attribute (Attribute (Name ''hs'') ''signals'') ''Signal1D'')
           [Call (Attribute (Name ''np'') ''ones'') [Num ''101''],
            Keyword ''axes'' (ListE [Name ''axis''])]),
      Expr (Call (Attribute (Name ''s'') ''set_signal_type'') [Str ''Luminescence'']),
      Assign [Name ''s2'']
        (Call (Attribute (Name ''s'') ''to_eV'') [Keyword ''inplace'' (Constant ''False'')])]"

definition workshop_2023_03_cell_41 :: "stmt list" where
  "workshop_2023_03_cell_41 =
     [Assign [Name ''x'']
        (BinOp (BinOp (Call (Attribute (Name ''np'') ''arange'') [Num ''9'']) ''*'' (Num ''50''))
           ''+''
           (Num ''300'')),
      Assign [Name ''x2''] (Call (Attribute (Name ''lum'') ''nm2eV'') [Name ''x'']),
      Assign [Name ''y2'']
        (Call (Attribute (Attribute (Name ''hs'') ''signals'') ''Signal1D'')
           [Call (Attribute (Name ''np'') ''ones'') [Num ''9''],
            Keyword ''axes''
              (ListE
                 [DictE [Str ''offset'', Str ''scale'', Str ''size'']
                    [Num ''300'', Num ''50'', Num ''9'']])]),
      Expr (Call (Attribute (Name ''y2'') ''set_signal_type'') [Str ''Luminescence'']),
      Expr (Call (Attribute (Name ''y2'') ''to_eV'') [])]"

definition workshop_2023_03_cell_42 :: "stmt list" where
  "workshop_2023_03_cell_42 =
     [Assign [Name ''fig1'']
        (Call (Attribute (Name ''plt'') ''figure'')
           [Keyword ''figsize'' (TupleE [Num ''10'', Num ''4''])]),
      Assign [Name ''ax0''] (Call (Attribute (Name ''plt'') ''subplot'') [Num ''121'']),
      Expr (Call (Attribute (Name ''plt'') ''ylim'') [Num ''0'', Num ''1.3'']),
      Expr (Call (Attribute (Name ''plt'') ''xlabel'') [Str ''Wavelength (nm)'']),
      Expr
        (Call (Attribute (Name ''ax0'') ''plot'')
           [Attribute (Subscript (Attribute (Name ''s'') ''axes_manager'') (Num ''0'')) ''axis'',
            Attribute (Name ''s'') ''data'',
            Keyword ''color'' (Str ''orange'')]),
      Expr
        (Call (Attribute (Name ''ax0'') ''vlines'')
           [Name ''x'', Num ''0'', Num ''1'', Keyword ''color'' (Str ''orange'')]),
      Expr
        (Call (Attribute (Name ''ax0'') ''fill_between'')
           [Attribute (Subscript (Attribute (Name ''s'') ''axes_manager'') (Num ''0'')) ''axis'',
            Num ''0'',
            Attribute (Name ''s'') ''data'',
            Keyword ''facecolor'' (Str ''orange''),
            Keyword ''alpha'' (Num ''0.3'')]),
      Assign [Name ''ax1''] (Call (Attribute (Name ''plt'') ''subplot'') [Num ''122'']),
      Expr (Call (Attribute (Name ''plt'') ''ylim'') [Num ''0'', Num ''0.43'']),
      Expr (Call (Attribute (Name ''plt'') ''xlabel'') [Str ''Energy (eV)'']),
      Expr
        (Call (Attribute (Name ''ax1'') ''plot'')
           [Attribute (Subscript (Attribute (Name ''s2'') ''axes_manager'') (Num ''0'')) ''axis'',
            Attribute (Name ''s2'') ''data'',
            Keyword ''color'' (Str ''orange'')]),
      Expr
        (Call (Attribute (Name ''ax1'') ''vlines'')
           [Name ''x2'',
            Num ''0'',
            Subscript (Attribute (Name ''y2'') ''data'')
              (Slice Absent Absent (UnaryOp ''-'' (Num ''1''))),
            Keyword ''color'' (Str ''orange'')]),
      Expr
        (Call (Attribute (Name ''ax1'') ''fill_between'')
           [Attribute (Subscript (Attribute (Name ''s2'') ''axes_manager'') (Num ''0'')) ''axis'',
            Num ''0'',
            Attribute (Name ''s2'') ''data'',
            Keyword ''facecolor'' (Str ''orange''),
            Keyword ''alpha'' (Num ''0.3'')])]"

definition workshop_2023_03_cell_44 :: "stmt list" where
  "workshop_2023_03_cell_44 =
     [Assign [Name ''m''] (Call (Attribute (Name ''cl1_eV'') ''create_model'') [])]"

definition workshop_2023_03_cell_46 :: "stmt list" where
  "workshop_2023_03_cell_46 =
     [Expr (Attribute (Name ''m'') ''components'')]"

definition workshop_2023_03_cell_48 :: "stmt list" where
  "workshop_2023_03_cell_48 =
     [Assign [Name ''bkg'']
        (Call
           (Attribute (Attribute (Attribute (Name ''hs'') ''model'') ''components1D'') ''Offset'')
           []),
      Assign [Name ''g1'']
        (Call
           (Attribute (Attribute (Attribute (Name ''hs'') ''model'') ''components1D'')
              ''GaussianHF'')
           []),
      Expr (Call (Attribute (Name ''m'') ''extend'') [ListE [Name ''g1'', Name ''bkg'']]),
      Expr (Attribute (Name ''m'') ''components'')]"

definition workshop_2023_03_cell_50 :: "stmt list" where
  "workshop_2023_03_cell_50 =
     [Expr (Call (Attribute (Name ''m'') ''print_current_values'') [])]"

definition workshop_2023_03_cell_52 :: "stmt list" where
  "workshop_2023_03_cell_52 =
     [Assign [Attribute (Attribute (Name ''cl1'') ''axes_manager'') ''indices'']
        (TupleE [Num ''7'', Num ''7'']),
      Assign [Attribute (Attribute (Name ''g1'') ''centre'') ''value''] (Num ''2.4''),
      Assign [Attribute (Attribute (Name ''g1'') ''fwhm'') ''value''] (Num ''0.1''),
      Assign [Attribute (Attribute (Name ''g1'') ''height'') ''value''] (Num ''5''),
      Assign [Attribute (Attribute (Name ''bkg'') ''offset'') ''value''] (Num ''0.1'')]"

definition workshop_2023_03_cell_54 :: "stmt list" where
  "workshop_2023_03_cell_54 =
     [Assign [Attribute (Attribute (Name ''g1'') ''centre'') ''bmax'']
        (BinOp (Attribute (Attribute (Name ''g1'') ''centre'') ''value'') ''+'' (Num ''0.2'')),
      Assign [Attribute (Attribute (Name ''g1'') ''centre'') ''bmin'']
        (BinOp (Attribute (Attribute (Name ''g1'') ''centre'') ''value'') ''-'' (Num ''0.2'')),
      Assign [Attribute (Attribute (Name ''g1'') ''fwhm'') ''bmin''] (Num ''0.01'')]"

definition workshop_2023_03_cell_56 :: "stmt list" where
  "workshop_2023_03_cell_56 =
     [Expr (Call (Attribute (Name ''m'') ''fit'') [Keyword ''bounded'' (Constant ''True'')]),
      Expr (Call (Attribute (Name ''m'') ''assign_current_values_to_all'') []),
      Expr (Call (Attribute (Name ''m'') ''plot'') [])]"

definition workshop_2023_03_cell_58 :: "stmt list" where
  "workshop_2023_03_cell_58 =
     [Expr (Call (Attribute (Name ''m'') ''print_current_values'') [])]"

definition workshop_2023_03_cell_60 :: "stmt list" where
  "workshop_2023_03_cell_60 =
     [Expr
        (Call (Attribute (Name ''m'') ''multifit'')
           [Keyword ''bounded'' (Constant ''True''),
            Keyword ''show_progressbar'' (Constant ''True'')]),
      Expr
        (Call (Attribute (Name ''m'') ''plot'') [Keyword ''plot_components'' (Constant ''True'')])]"

definition workshop_2023_03_cell_62 :: "stmt list" where
  "workshop_2023_03_cell_62 =
     [Assign [Name ''m_centre'']
        (Call (Attribute (Attribute (Name ''g1'') ''centre'') ''as_signal'') []),
      Expr
        (Call (Attribute (Name ''m_centre'') ''plot'')
           [Keyword ''cmap'' (Str ''bwr_r''), Keyword ''centre_colormap'' (Constant ''False'')]),
      Assign [Name ''m_intensity'']
        (Call (Attribute (Attribute (Name ''g1'') ''height'') ''as_signal'') []),
      Expr (Call (Attribute (Name ''m_intensity'') ''plot'') [Keyword ''cmap'' (Str ''viridis'')])]"

definition workshop_2023_03_cell_64 :: "stmt list" where
  "workshop_2023_03_cell_64 =
     [Assign [Name ''mask_treshold'']
        (Call (Attribute (Attribute (Name ''m_intensity'') ''data'') ''mean'') []),
      Assign [Name ''mask'']
        (Compare (Attribute (Name ''m_intensity'') ''data'') ''>'' (Name ''mask_treshold'')),
      Expr (Call (Attribute (Name ''plt'') ''figure'') []),
      Expr (Call (Attribute (Name ''plt'') ''imshow'') [Name ''mask''])]"

definition workshop_2023_03_cell_66 :: "stmt list" where
  "workshop_2023_03_cell_66 =
     [Expr
        (Call (Attribute (BinOp (Name ''m_centre'') ''*'' (Name ''mask'')) ''plot'')
           [Keyword ''cmap'' (Str ''bwr_r''),
            Keyword ''vmin'' (Num ''2.3''),
            Keyword ''centre_colormap'' (Constant ''False'')])]"

definition workshop_2023_03_cell_68 :: "stmt list" where
  "workshop_2023_03_cell_68 =
     [Expr (Call (Attribute (Name ''cl2'') ''plot'') []),
      Expr
        (Call (Attribute (Name ''cl2'') ''remove_background'')
           [Keyword ''background_type'' (Str ''Offset'')])]"

definition workshop_2023_03_cell_70 :: "stmt list" where
  "workshop_2023_03_cell_70 =
     [Assign [Name ''cl2'']
        (Subscript (Attribute (Name ''cl2'') ''isig'')
           (Slice Absent (UnaryOp ''-'' (Num ''3'')) Absent)),
      Expr (Call (Attribute (Name ''cl2'') ''plot'') [])]"

definition workshop_2023_03_cell_72 :: "stmt list" where
  "workshop_2023_03_cell_72 =
     [Expr
        (Call (Attribute (Name ''cl2'') ''spikes_removal_tool'')
           [Keyword ''interactive'' (Constant ''False'')])]"

definition workshop_2023_03_cell_74 :: "stmt list" where
  "workshop_2023_03_cell_74 =
     [Assign [Name ''cl2'']
        (Call (Attribute (Name ''cl2'') ''rebin'')
           [Keyword ''scale'' (ListE [Num ''1'', Num ''1'', Num ''2''])]),
      Expr (Call (Attribute (Name ''cl2'') ''plot'') [])]"

definition workshop_2023_03_cell_76 :: "stmt list" where
  "workshop_2023_03_cell_76 =
     [Expr (Call (Attribute (Name ''cl2'') ''plot'') []),
      Expr
        (Call (Attribute (Name ''cl2'') ''smooth_lowess'')
           [Keyword ''number_of_iterations'' (Num ''2'')])]"

definition workshop_2023_03_cell_77 :: "stmt list" where
  "workshop_2023_03_cell_77 =
     [Expr (Call (Attribute (Name ''cl2'') ''plot'') [])]"

definition workshop_2023_03_cell_79 :: "stmt list" where
  "workshop_2023_03_cell_79 =
     [Assign [Name ''peaks'']
        (Call
           (Attribute
              (Subscript (Attribute (Name ''cl2'') ''isig'') (Slice (Num ''600.'') Absent Absent))
              ''find_peaks1D_ohaver'')
           [Keyword ''maxpeakn'' (Num ''1'')])]"

definition workshop_2023_03_cell_81 :: "stmt list" where
  "workshop_2023_03_cell_81 =
     [Expr (Subscript (Name ''peaks'') (TupleE [Num ''0'', Num ''0'']))]"

definition workshop_2023_03_cell_83 :: "stmt list" where
  "workshop_2023_03_cell_83 =
     [Assign [Name ''width'']
        (Call
           (Attribute
              (Subscript (Attribute (Name ''cl2'') ''isig'') (Slice (Num ''600.'') Absent Absent))
              ''estimate_peak_width'')
           [Keyword ''return_interval'' (Constant ''True'')]),
      Expr
        (Call (Attribute (Subscript (Name ''width'') (Num ''0'')) ''plot'')
           [Keyword ''cmap'' (Str ''viridis'')])]"

definition workshop_2023_03_cell_85 :: "stmt list" where
  "workshop_2023_03_cell_85 =
     [Assign [Name ''com'']
        (Call
           (Attribute
              (Subscript (Attribute (Name ''cl2'') ''isig'') (Slice (Num ''600.'') Absent Absent))
              ''centroid'')
           []),
      Expr (Call (Attribute (Name ''com'') ''plot'') [Keyword ''cmap'' (Str ''viridis'')])]"

definition workshop_2023_03_cell_87 :: "stmt list" where
  "workshop_2023_03_cell_87 =
     [Assign [Name ''mrk'']
        (Call
           (Attribute (Attribute (Attribute (Name ''hs'') ''plot'') ''markers'') ''vertical_line'')
           [Attribute (Name ''com'') ''data'', Keyword ''color'' (Str ''black'')]),
      Assign [Name ''mrkl'']
        (Call
           (Attribute (Attribute (Attribute (Name ''hs'') ''plot'') ''markers'') ''vertical_line'')
           [Attribute (Subscript (Name ''width'') (Num ''1'')) ''data'',
            Keyword ''color'' (Str ''grey'')]),
      Assign [Name ''mrkr'']
        (Call
           (Attribute (Attribute (Attribute (Name ''hs'') ''plot'') ''markers'') ''vertical_line'')
           [Attribute (Subscript (Name ''width'') (Num ''2'')) ''data'',
            Keyword ''color'' (Str ''grey'')]),
      Expr
        (Call (Attribute (Name ''cl2'') ''add_marker'')
           [ListE [Name ''mrk'', Name ''mrkl'', Name ''mrkr''],
            Keyword ''permanent'' (Constant ''True'')]),
      Expr (Call (Attribute (Name ''cl2'') ''plot'') [])]"

definition workshop_2023_03_cell_89 :: "stmt list" where
  "workshop_2023_03_cell_89 =
     [Assign [Name ''cl3'']
        (Subscript (Attribute (Name ''cl3'') ''inav'') (TupleE [Num ''10'', Num ''8''])),
      Assign [Name ''m''] (Call (Attribute (Name ''cl3'') ''create_model'') []),
      Assign [Name ''g1'']
        (Call
           (Attribute (Attribute (Attribute (Name ''hs'') ''model'') ''components1D'')
              ''SkewNormal'')
           []),
      Assign [Name ''g2'']
        (Call
           (Attribute (Attribute (Attribute (Name ''hs'') ''model'') ''components1D'')
              ''GaussianHF'')
           []),
      Expr (Call (Attribute (Name ''m'') ''extend'') [TupleE [Name ''g1'', Name ''g2'']]),
      Assign [Attribute (Attribute (Name ''g1'') ''x0'') ''value''] (Num ''655''),
      Assign [Attribute (Attribute (Name ''g1'') ''scale'') ''value''] (Num ''50''),
      Assign [Attribute (Attribute (Name ''g1'') ''shape'') ''value''] (Num ''2''),
      Assign [Attribute (Attribute (Name ''g1'') ''A'') ''value''] (Num ''220''),
      Assign [Attribute (Attribute (Name ''g1'') ''x0'') ''bmin''] (Num ''635''),
      Assign [Attribute (Attribute (Name ''g1'') ''x0'') ''bmax''] (Num ''675''),
      Assign [Attribute (Attribute (Name ''g1'') ''x0'') ''bounded''] (Constant ''True''),
      Assign [Attribute (Attribute (Name ''g2'') ''centre'') ''value''] (Num ''580''),
      Assign [Attribute (Attribute (Name ''g2'') ''fwhm'') ''value''] (Num ''180''),
      Assign [Attribute (Attribute (Name ''g2'') ''height'') ''value''] (Num ''20''),
      Expr (Call (Attribute (Name ''m'') ''fit'') []),
      Expr (Call (Attribute (Name ''m'') ''plot'') [])]"

definition workshop_2023_03_cell_90 :: "stmt list" where
  "workshop_2023_03_cell_90 =
     [FunctionDef ''getPeaks'' [''S2'']
        [Assign [Name ''S2'']
           (Call (Attribute (Name ''S2'') ''rebin'') [Keyword ''new_shape'' (ListE [Num ''334''])]),
         Expr
           (Call (Attribute (Name ''S2'') ''smooth_savitzky_golay'')
              [Keyword ''window_length'' (Num ''15''), Keyword ''polynomial_order'' (Num ''2'')]),
         Assign [Name ''peaks'']
           (Subscript
              (Call (Attribute (Name ''S2'') ''find_peaks1D_ohaver'')
                 [Keyword ''amp_thresh''
                    (BinOp (Num ''0.2'') ''*''
                       (Call (Attribute (Name ''np'') ''max'') [Attribute (Name ''S2'') ''data''])),
                  Keyword ''maxpeakn'' (Num ''10'')])
              (Num ''0'')),
         Return (Name ''peaks'')]]"

definition workshop_2023_03_cell_91 :: "stmt list" where
  "workshop_2023_03_cell_91 =
     [Assign [Name ''ng''] (Num ''10''),
      Assign [Name ''S2''] (Call (Attribute (Name ''cl3'') ''deepcopy'') []),
      Assign [Name ''g''] (Call (Name ''list'') []),
      For (Name ''i'') (Call (Attribute (Name ''np'') ''arange'') [Name ''ng''])
        [Expr
           (Call (Attribute (Name ''g'') ''append'')
              [Call
                 (Attribute (Attribute (Attribute (Name ''hs'') ''model'') ''components1D'')
                    ''GaussianHF'')
                 []])],
      Expr (Call (Attribute (Name ''m'') ''extend'') [Name ''g'']),
      For (Name ''i'') (Call (Attribute (Name ''np'') ''arange'') [Name ''ng''])
        [Assign [Attribute (Subscript (Name ''g'') (Name ''i'')) ''active_is_multidimensional'']
           (Constant ''True'')],
      Assign [Name ''peaks'']
        (Call (Name ''getPeaks'')
           [Subscript (Attribute (Name ''S2'') ''inav'')
              (Attribute (Attribute (Name ''cl3'') ''axes_manager'') ''indices'')]),
      For (Name ''i'')
        (Call (Attribute (Name ''np'') ''arange'')
           [Call (Attribute (Name ''np'') ''size'') [Name ''peaks'']])
        [Assign [Attribute (Attribute (Subscript (Name ''g'') (Name ''i'')) ''centre'') ''value'']
           (Subscript (Subscript (Name ''peaks'') (Str ''position'')) (Name ''i'')),
         Assign [Attribute (Attribute (Subscript (Name ''g'') (Name ''i'')) ''centre'') ''bmin'']
           (BinOp (Subscript (Subscript (Name ''peaks'') (Str ''position'')) (Name ''i'')) ''-''
              (Num ''3'')),
         Assign [Attribute (Attribute (Subscript (Name ''g'') (Name ''i'')) ''centre'') ''bmax'']
           (BinOp (Subscript (Subscript (Name ''peaks'') (Str ''position'')) (Name ''i'')) ''+''
              (Num ''3'')),
         Assign
           [Attribute (Attribute (Subscript (Name ''g'') (Name ''i'')) ''centre'') ''bounded'']
           (Constant ''True''),
         Assign [Attribute (Attribute (Subscript (Name ''g'') (Name ''i'')) ''fwhm'') ''value'']
           (Num ''5''),
         Assign [Attribute (Attribute (Subscript (Name ''g'') (Name ''i'')) ''fwhm'') ''bmax'']
           (Num ''10''),
         Assign [Attribute (Attribute (Subscript (Name ''g'') (Name ''i'')) ''fwhm'') ''bmin'']
           (Num ''1''),
         Assign [Attribute (Attribute (Subscript (Name ''g'') (Name ''i'')) ''fwhm'') ''bounded'']
           (Constant ''True''),
         Assign [Attribute (Attribute (Subscript (Name ''g'') (Name ''i'')) ''height'') ''value'']
           (Num ''20''),
         Assign [Attribute (Attribute (Subscript (Name ''g'') (Name ''i'')) ''height'') ''bmin'']
           (Num ''1''),
         Assign
           [Attribute (Attribute (Subscript (Name ''g'') (Name ''i'')) ''height'') ''bounded'']
           (Constant ''True'')],
      If (Compare (Call (Attribute (Name ''np'') ''size'') [Name ''peaks'']) ''<'' (Name ''ng''))
        [For (Name ''i'')
           (Call (Attribute (Name ''np'') ''arange'')
              [Call (Attribute (Name ''np'') ''size'') [Name ''peaks''], Name ''ng''])
           [Assign [Attribute (Subscript (Name ''g'') (Name ''i'')) ''active'']
              (Constant ''False'')]]
        [],
      Expr (Call (Attribute (Name ''m'') ''fit'') [Keyword ''bounded'' (Constant ''True'')]),
      Expr (Call (Attribute (Name ''m'') ''plot'') [])]"

definition workshop_2023_03_cell_93 :: "stmt list" where
  "workshop_2023_03_cell_93 =
     []"

definition workshop_2023_03 :: "cell list" where
  "workshop_2023_03 =
     [Markdown, Markdown, Code workshop_2023_03_cell_2, Markdown,
      Code workshop_2023_03_cell_4, Markdown, Code workshop_2023_03_cell_6, Markdown,
      Code workshop_2023_03_cell_8, Markdown, Code workshop_2023_03_cell_10, Markdown,
      Code workshop_2023_03_cell_12, Markdown, Code workshop_2023_03_cell_14, Markdown,
      Code workshop_2023_03_cell_16, Markdown, Code workshop_2023_03_cell_18, Markdown,
      Code workshop_2023_03_cell_20, Markdown, Code workshop_2023_03_cell_22, Markdown,
      Code workshop_2023_03_cell_24, Markdown, Code workshop_2023_03_cell_26, Markdown,
      Code workshop_2023_03_cell_28, Markdown, Code workshop_2023_03_cell_30, Markdown,
      Code workshop_2023_03_cell_32, Markdown, Code workshop_2023_03_cell_34, Markdown,
      Code workshop_2023_03_cell_36, Markdown, Code workshop_2023_03_cell_38, Markdown,
      Code workshop_2023_03_cell_40, Code workshop_2023_03_cell_41,
      Code workshop_2023_03_cell_42, Markdown, Code workshop_2023_03_cell_44, Markdown,
      Code workshop_2023_03_cell_46, Markdown, Code workshop_2023_03_cell_48, Markdown,
      Code workshop_2023_03_cell_50, Markdown, Code workshop_2023_03_cell_52, Markdown,
      Code workshop_2023_03_cell_54, Markdown, Code workshop_2023_03_cell_56, Markdown,
      Code workshop_2023_03_cell_58, Markdown, Code workshop_2023_03_cell_60, Markdown,
      Code workshop_2023_03_cell_62, Markdown, Code workshop_2023_03_cell_64, Markdown,
      Code workshop_2023_03_cell_66, Markdown, Code workshop_2023_03_cell_68, Markdown,
      Code workshop_2023_03_cell_70, Markdown, Code workshop_2023_03_cell_72, Markdown,
      Code workshop_2023_03_cell_74, Markdown, Code workshop_2023_03_cell_76,
      Code workshop_2023_03_cell_77, Markdown, Code workshop_2023_03_cell_79, Markdown,
      Code workshop_2023_03_cell_81, Markdown, Code workshop_2023_03_cell_83, Markdown,
      Code workshop_2023_03_cell_85, Markdown, Code workshop_2023_03_cell_87, Markdown,
      Code workshop_2023_03_cell_89, Code workshop_2023_03_cell_90,
      Code workshop_2023_03_cell_91, Markdown, Code workshop_2023_03_cell_93]"

subsection \<open>workshop 2023 07\<close>

definition workshop_2023_07_cell_4 :: "stmt list" where
  "workshop_2023_07_cell_4 =
     [Import [(''warnings'', '''')],
      Expr (Call (Attribute (Name ''warnings'') ''simplefilter'') [Str ''ignore'']),
      Magic ''%matplotlib qt'',
      Import [(''hyperspy.api'', ''hs'')],
      Import [(''lumispy'', ''lum'')]]"

definition workshop_2023_07_cell_6 :: "stmt list" where
  "workshop_2023_07_cell_6 =
     [Expr (Call (Attribute (Name ''hs'') ''print_known_signal_types'') [])]"

definition workshop_2023_07_cell_8 :: "stmt list" where
  "workshop_2023_07_cell_8 =
     [Assign [Name ''cl2'']
        (Call (Attribute (Name ''hs'') ''load'')
           [Str ''../demo-files/load_from_GatanFiles/asymmetric-peak_map.dm4''])]"

definition workshop_2023_07_cell_10 :: "stmt list" where
  "workshop_2023_07_cell_10 =
     [Expr (Name ''cl2'')]"

definition workshop_2023_07_cell_12 :: "stmt list" where
  "workshop_2023_07_cell_12 =
     [Expr (Attribute (Name ''cl2'') ''metadata'')]"

definition workshop_2023_07_cell_14 :: "stmt list" where
  "workshop_2023_07_cell_14 =
     [Expr (Call (Attribute (Name ''cl2'') ''plot'') [])]"

definition workshop_2023_07_cell_16 :: "stmt list" where
  "workshop_2023_07_cell_16 =
     [Expr (Call (Attribute (Name ''cl2'') ''remove_background'') [])]"

definition workshop_2023_07_cell_18 :: "stmt list" where
  "workshop_2023_07_cell_18 =
     [Assign [Name ''cl2'']
        (Subscript (Attribute (Name ''cl2'') ''isig'')
           (Slice Absent (UnaryOp ''-'' (Num ''3'')) Absent))]"

definition workshop_2023_07_cell_19 :: "stmt list" where
  "workshop_2023_07_cell_19 =
     [Expr (Call (Attribute (Name ''cl2'') ''plot'') [])]"

definition workshop_2023_07_cell_21 :: "stmt list" where
  "workshop_2023_07_cell_21 =
     [Expr (Call (Attribute (Name ''cl2'') ''spikes_removal_tool'') [])]"

definition workshop_2023_07_cell_23 :: "stmt list" where
  "workshop_2023_07_cell_23 =
     [Assign [Name ''cl2'']
        (Call (Attribute (Name ''cl2'') ''rebin'')
           [Keyword ''scale'' (ListE [Num ''1'', Num ''1'', Num ''2''])]),
      Expr (Call (Attribute (Name ''cl2'') ''plot'') [])]"

definition workshop_2023_07_cell_25 :: "stmt list" where
  "workshop_2023_07_cell_25 =
     [Assign [Name ''cl2a''] (Call (Attribute (Name ''cl2'') ''deepcopy'') []),
      Expr
        (Call (Attribute (Name ''cl2'') ''smooth_lowess'')
           [Keyword ''number_of_iterations'' (Num ''2'')])]"

definition workshop_2023_07_cell_27 :: "stmt list" where
  "workshop_2023_07_cell_27 =
     [Assign [Name ''peaks'']
        (Call
           (Attribute
              (Subscript (Attribute (Name ''cl2'') ''isig'') (Slice (Num ''600.'') Absent Absent))
              ''find_peaks1D_ohaver'')
           [Keyword ''maxpeakn'' (Num ''1'')])]"

definition workshop_2023_07_cell_29 :: "stmt list" where
  "workshop_2023_07_cell_29 =
     [Expr (Subscript (Name ''peaks'') (TupleE [Num ''0'', Num ''0'']))]"

definition workshop_2023_07_cell_31 :: "stmt list" where
  "workshop_2023_07_cell_31 =
     [Assign [Name ''com'']
        (Call
           (Attribute
              (Subscript (Attribute (Name ''cl2'') ''isig'') (Slice (Num ''600.'') Absent Absent))
              ''centroid'')
           [])]"

definition workshop_2023_07_cell_33 :: "stmt list" where
  "workshop_2023_07_cell_33 =
     [Expr (Call (Attribute (Name ''com'') ''plot'') [Keyword ''cmap'' (Str ''viridis'')])]"

definition workshop_2023_07_cell_35 :: "stmt list" where
  "workshop_2023_07_cell_35 =
     [Assign [Name ''width'']
        (Call
           (Attribute
              (Subscript (Attribute (Name ''cl2'') ''isig'') (Slice (Num ''600.'') Absent Absent))
              ''estimate_peak_width'')
           [Keyword ''return_interval'' (Constant ''True'')])]"

definition workshop_2023_07_cell_36 :: "stmt list" where
  "workshop_2023_07_cell_36 =
     [Expr
        (Call (Attribute (Subscript (Name ''width'') (Num ''0'')) ''plot'')
           [Keyword ''cmap'' (Str ''viridis'')])]"

definition workshop_2023_07_cell_38 :: "stmt list" where
  "workshop_2023_07_cell_38 =
     [Assign [Name ''mrk'']
        (Call
           (Attribute (Attribute (Attribute (Name ''hs'') ''plot'') ''markers'') ''vertical_line'')
           [Attribute (Name ''com'') ''data'', Keyword ''color'' (Str ''black'')]),
      Assign [Name ''mrkl'']
        (Call
           (Attribute (Attribute (Attribute (Name ''hs'') ''plot'') ''markers'') ''vertical_line'')
           [Attribute (Subscript (Name ''width'') (Num ''1'')) ''data'',
            Keyword ''color'' (Str ''grey'')]),
      Assign [Name ''mrkr'']
        (Call
           (Attribute (Attribute (Attribute (Name ''hs'') ''plot'') ''markers'') ''vertical_line'')
           [Attribute (Subscript (Name ''width'') (Num ''2'')) ''data'',
            Keyword ''color'' (Str ''grey'')]),
      Expr
        (Call (Attribute (Name ''cl2'') ''add_marker'')
           [ListE [Name ''mrk'', Name ''mrkl'', Name ''mrkr''],
            Keyword ''permanent'' (Constant ''True'')]),
      Expr (Call (Attribute (Name ''cl2'') ''plot'') [])]"

definition workshop_2023_07_cell_40 :: "stmt list" where
  "workshop_2023_07_cell_40 =
     [Expr (Attribute (Name ''cl2a'') ''axes_manager'')]"

definition workshop_2023_07_cell_42 :: "stmt list" where
  "workshop_2023_07_cell_42 =
     [Assign [Name ''cl2_eV'']
        (Call (Attribute (Name ''cl2a'') ''to_eV'') [Keyword ''inplace'' (Constant ''False'')])]"

definition workshop_2023_07_cell_44 :: "stmt list" where
  "workshop_2023_07_cell_44 =
     [Expr (Attribute (Name ''cl2_eV'') ''axes_manager'')]"

definition workshop_2023_07_cell_46 :: "stmt list" where
  "workshop_2023_07_cell_46 =
     [Expr
        (Attribute
           (Subscript (Attribute (Name ''cl2_eV'') ''axes_manager'') (UnaryOp ''-'' (Num ''1'')))
           ''axis'')]"

definition workshop_2023_07_cell_47 :: "stmt list" where
  "workshop_2023_07_cell_47 =
     [Expr (Call (Attribute (Name ''cl2_eV'') ''plot'') [])]"

definition workshop_2023_07_cell_49 :: "stmt list" where
  "workshop_2023_07_cell_49 =
     [Assign [Name ''m''] (Call (Attribute (Name ''cl2_eV'') ''create_model'') [])]"

definition workshop_2023_07_cell_51 :: "stmt list" where
  "workshop_2023_07_cell_51 =
     [Expr (Attribute (Name ''m'') ''components'')]"

definition workshop_2023_07_cell_53 :: "stmt list" where
  "workshop_2023_07_cell_53 =
     [Assign [Name ''g1'']
        (Call
           (Attribute (Attribute (Attribute (Name ''hs'') ''model'') ''components1D'')
              ''SkewNormal'')
           []),
      Expr (Call (Attribute (Name ''m'') ''append'') [Name ''g1'']),
      Expr (Attribute (Name ''m'') ''components'')]"

definition workshop_2023_07_cell_55 :: "stmt list" where
  "workshop_2023_07_cell_55 =
     [Expr (Call (Attribute (Name ''m'') ''print_current_values'') [])]"

definition workshop_2023_07_cell_57 :: "stmt list" where
  "workshop_2023_07_cell_57 =
     [Expr (Call (Attribute (Name ''m'') ''multifit'') [])]"

definition workshop_2023_07_cell_59 :: "stmt list" where
  "workshop_2023_07_cell_59 =
     [Expr (Call (Attribute (Name ''m'') ''plot'') [])]"

definition workshop_2023_07_cell_61 :: "stmt list" where
  "workshop_2023_07_cell_61 =
     [Expr (Call (Attribute (Name ''m'') ''print_current_values'') [])]"

definition workshop_2023_07 :: "cell list" where
  "workshop_2023_07 =
     [Markdown, Markdown, Markdown, Markdown, Code workshop_2023_07_cell_4, Markdown,
      Code workshop_2023_07_cell_6, Markdown, Code workshop_2023_07_cell_8, Markdown,
      Code workshop_2023_07_cell_10, Markdown, Code workshop_2023_07_cell_12, Markdown,
      Code workshop_2023_07_cell_14, Markdown, Code workshop_2023_07_cell_16, Markdown,
      Code workshop_2023_07_cell_18, Code workshop_2023_07_cell_19, Markdown,
      Code workshop_2023_07_cell_21, Markdown, Code workshop_2023_07_cell_23, Markdown,
      Code workshop_2023_07_cell_25, Markdown, Code workshop_2023_07_cell_27, Markdown,
      Code workshop_2023_07_cell_29, Markdown, Code workshop_2023_07_cell_31, Markdown,
      Code workshop_2023_07_cell_33, Markdown, Code workshop_2023_07_cell_35,
      Code workshop_2023_07_cell_36, Markdown, Code workshop_2023_07_cell_38, Markdown,
      Code workshop_2023_07_cell_40, Markdown, Code workshop_2023_07_cell_42, Markdown,
      Code workshop_2023_07_cell_44, Markdown, Code workshop_2023_07_cell_46,
      Code workshop_2023_07_cell_47, Markdown, Code workshop_2023_07_cell_49, Markdown,
      Code workshop_2023_07_cell_51, Markdown, Code workshop_2023_07_cell_53, Markdown,
      Code workshop_2023_07_cell_55, Markdown, Code workshop_2023_07_cell_57, Markdown,
      Code workshop_2023_07_cell_59, Markdown, Code workshop_2023_07_cell_61, Markdown]"

text \<open>The notebooks of the repository.\<close>

definition notebooks :: "cell list list" where
  "notebooks =
     [AttolightSEM_sur_to_hspy, AttolightSEM_HYP, GatanSEM_dm,
      workshop_2025, workshop_2023_03, workshop_2023_07]"

section \<open>Properties of the background-path cell\<close>

lemma list_getitem_0_Nil: "list_getitem [] 0 = Inl IndexError"
  by (simp add: list_getitem_def)

lemma list_getitem_0_Cons: "list_getitem (x # xs) 0 = Inr x"
  by (simp add: list_getitem_def)

lemma bkg_path_cell_no_match:
  "glob_glob env (os_path_join env (root_folder s) ''*.txt'') = [] \<Longrightarrow>
   bkg_path_cell env s = (None, s\<lparr>stdout := stdout s @ [bkg_prompt], bkg_path := Some ''''\<rparr>)"
  by (simp add: bkg_path_cell_def bkg_path_try_def list_getitem_0_Nil)

lemma bkg_path_cell_match:
  "glob_glob env (os_path_join env (root_folder s) ''*.txt'') = f # fs \<Longrightarrow>
   bkg_path_cell env s = (None, s\<lparr>bkg_path := Some f\<rparr>)"
  by (simp add: bkg_path_cell_def bkg_path_try_def list_getitem_0_Cons)

text \<open>
  C10. In the background-path cell, when the glob for \<open>*.txt\<close> in the root folder matches
  nothing, the IndexError is caught, the prompt is printed and \<open>bkg_path\<close> becomes the
  empty string; whatever the glob answers, no exception leaves the cell and \<open>bkg_path\<close>
  is bound to a string afterwards.
\<close>

theorem bkg_path_cell_catches_IndexError:
  "fst (bkg_path_cell env s) = None \<and>
   (\<exists>p. bkg_path (snd (bkg_path_cell env s)) = Some p) \<and>
   (glob_glob env (os_path_join env (root_folder s) ''*.txt'') = [] \<longrightarrow>
      bkg_path_try env s = (Some IndexError, s\<lparr>bkg_path := Some (os_path_join env (root_folder s) ''*.txt'')\<rparr>) \<and>
      bkg_path (snd (bkg_path_cell env s)) = Some '''' \<and>
      stdout (snd (bkg_path_cell env s)) = stdout s @ [bkg_prompt])"
proof (cases "glob_glob env (os_path_join env (root_folder s) ''*.txt'')")
  case Nil
  then show ?thesis
    by (simp add: bkg_path_cell_no_match) (simp add: bkg_path_try_def list_getitem_0_Nil)
next
  case (Cons f fs)
  then show ?thesis
    by (simp add: bkg_path_cell_match)
qed

theorem bkg_path_cell_catches_IndexError_witness:
  "fst (bkg_path_cell \<lparr>os_path_join = (\<lambda>a b. a @ b), glob_glob = (\<lambda>p. [])\<rparr>
          \<lparr>root_folder = ''demo-files/load_from_AttoLightSEM/'', bkg_path = None, stdout = []\<rparr>) = None \<and>
   bkg_path (snd (bkg_path_cell \<lparr>os_path_join = (\<lambda>a b. a @ b), glob_glob = (\<lambda>p. [])\<rparr>
          \<lparr>root_folder = ''demo-files/load_from_AttoLightSEM/'', bkg_path = None, stdout = []\<rparr>)) = Some '''' \<and>
   stdout (snd (bkg_path_cell \<lparr>os_path_join = (\<lambda>a b. a @ b), glob_glob = (\<lambda>p. [])\<rparr>
          \<lparr>root_folder = ''demo-files/load_from_AttoLightSEM/'', bkg_path = None, stdout = []\<rparr>)) = [bkg_prompt]"
  using bkg_path_cell_catches_IndexError
    [of "\<lparr>os_path_join = (\<lambda>a b. a @ b), glob_glob = (\<lambda>p. [])\<rparr>"
        "\<lparr>root_folder = ''demo-files/load_from_AttoLightSEM/'', bkg_path = None, stdout = []\<rparr>"]
  by simp

section \<open>Properties of the navigator cell\<close>

lemma navigator_cell_calls:
  "\<exists>cs. calls (snd (navigator_cell lib md s)) = calls s @ cs \<and>
        Plot (SE (snd (navigator_cell lib md s))) \<in> set cs"
  by (auto simp: navigator_cell_def navigator_try_def Let_def split: sum.splits option.splits prod.splits)

lemma navigator_cell_no_crop:
  "getattrs md path_cropped_edges = Inl e \<Longrightarrow>
   navigator_cell lib md s = (plot lib (SE s), s\<lparr>calls := calls s @ [Plot (SE s)]\<rparr>)"
  by (simp add: navigator_cell_def navigator_try_def)

lemma navigator_cell_no_resolution:
  "getattrs md path_resolution_x = Inl e \<Longrightarrow>
   fst (navigator_cell lib md s) = plot lib (SE s) \<and>
   SE (snd (navigator_cell lib md s)) = SE s \<and>
   calls (snd (navigator_cell lib md s)) = calls s @ [Plot (SE s)]"
  by (simp add: navigator_cell_def navigator_try_def split: sum.splits)

text \<open>
  C3. In the navigator cell, when reading the cropping metadata (\<open>Signal.cropped_edges\<close>
  or the SEM resolution) raises, the fallback branch runs: the signal is plotted once,
  with the \<open>SE\<close> image as it was before the cell (uncropped) as navigator, and the
  cell's outcome is that plot's. In every run of the cell, success or fallback, a plot call
  with the final \<open>SE\<close> image is among the calls the cell makes.
\<close>

theorem navigator_cell_fallback:
  "(getattrs md path_cropped_edges = Inl e \<or> getattrs md path_resolution_x = Inl e \<longrightarrow>
      fst (navigator_cell lib md s) = plot lib (SE s) \<and>
      SE (snd (navigator_cell lib md s)) = SE s \<and>
      calls (snd (navigator_cell lib md s)) = calls s @ [Plot (SE s)]) \<and>
   (\<exists>cs. calls (snd (navigator_cell lib md s)) = calls s @ cs \<and>
         Plot (SE (snd (navigator_cell lib md s))) \<in> set cs)"
proof (intro conjI impI)
  assume "getattrs md path_cropped_edges = Inl e \<or> getattrs md path_resolution_x = Inl e"
  then have r: "fst (navigator_cell lib md s) = plot lib (SE s) \<and>
      SE (snd (navigator_cell lib md s)) = SE s \<and>
      calls (snd (navigator_cell lib md s)) = calls s @ [Plot (SE s)]"
  proof
    assume "getattrs md path_cropped_edges = Inl e"
    then show ?thesis by (simp add: navigator_cell_no_crop)
  next
    assume "getattrs md path_resolution_x = Inl e"
    then show ?thesis by (rule navigator_cell_no_resolution)
  qed
  from r show "fst (navigator_cell lib md s) = plot lib (SE s)" by simp
  from r show "SE (snd (navigator_cell lib md s)) = SE s" by simp
  from r show "calls (snd (navigator_cell lib md s)) = calls s @ [Plot (SE s)]" by simp
next
  show "\<exists>cs. calls (snd (navigator_cell lib md s)) = calls s @ cs \<and>
         Plot (SE (snd (navigator_cell lib md s))) \<in> set cs"
    by (rule navigator_cell_calls)
qed

theorem navigator_cell_fallback_witness:
  "getattrs (Tree []) path_cropped_edges = Inl AttributeError \<and>
   fst (navigator_cell demo_sem_lib (Tree []) demo_nav_state) = None \<and>
   SE (snd (navigator_cell demo_sem_lib (Tree []) demo_nav_state)) = 0 \<and>
   calls (snd (navigator_cell demo_sem_lib (Tree []) demo_nav_state)) = [Plot 0]"
  using navigator_cell_fallback [of "Tree []" AttributeError demo_sem_lib demo_nav_state]
  by (simp add: path_cropped_edges_def demo_sem_lib_def demo_nav_state_def)





section \<open>Properties of the advanced fitting cell\<close>

lemma list_getitem_nat: "i < length xs \<Longrightarrow> list_getitem xs (int i) = Inr (xs ! i)"
  by (simp add: list_getitem_def)

lemma list_getitem_beyond: "length xs \<le> i \<Longrightarrow> list_getitem xs (int i) = Inl IndexError"
  by (simp add: list_getitem_def)

lemma store_g_in_range:
  "i < length (g s) \<Longrightarrow> store_g i f s = (None, s\<lparr>g := (g s)[i := f (g s ! i)]\<rparr>)"
  by (simp add: store_g_def list_getitem_nat)

lemma store_g_position_in_range:
  "i < length (g s) \<Longrightarrow> i < length (peaks s) \<Longrightarrow>
   store_g_position i f s = (None, s\<lparr>g := (g s)[i := f (position (peaks s ! i)) (g s ! i)]\<rparr>)"
  by (simp add: store_g_position_def list_getitem_nat store_g_in_range)

lemma stores_Nil: "stores F [] G0 = G0"
  by (simp add: stores_def)

lemma stores_Cons: "stores F (j # js) G0 = stores F js (G0[j := F j (G0 ! j)])"
  by (simp add: stores_def)

text \<open>A loop whose body stores into \<open>g[i]\<close> and nothing else, over indices in range.\<close>

lemma for_loop_stores:
  assumes step: "\<And>i s. i \<in> set js \<Longrightarrow> length (g s) = n \<Longrightarrow> peaks s = ps \<Longrightarrow>
                   body i s = (None, s\<lparr>g := (g s)[i := F i (g s ! i)]\<rparr>)"
  shows "length (g s) = n \<Longrightarrow> peaks s = ps \<Longrightarrow>
         for_loop js body s = (None, s\<lparr>g := stores F js (g s)\<rparr>)"
  using step
proof (induction js arbitrary: s)
  case Nil
  then show ?case by (simp add: stores_Nil)
next
  case (Cons j js)
  have b: "body j s = (None, s\<lparr>g := (g s)[j := F j (g s ! j)]\<rparr>)"
    using Cons.prems by simp
  have "for_loop js body (s\<lparr>g := (g s)[j := F j (g s ! j)]\<rparr>) =
        (None, (s\<lparr>g := (g s)[j := F j (g s ! j)]\<rparr>)
                 \<lparr>g := stores F js (g (s\<lparr>g := (g s)[j := F j (g s ! j)]\<rparr>))\<rparr>)"
    using Cons.prems by (intro Cons.IH) simp_all
  with b show ?case by (simp add: stores_Cons)
qed

lemma length_stores: "length (stores F js G0) = length G0"
  by (induction js arbitrary: G0) (simp_all add: stores_Nil stores_Cons)

lemma active_stores_False:
  assumes "\<And>i c. \<not> active (F i c)"
  shows "k < length G0 \<Longrightarrow>
         active (stores F js G0 ! k) = (k \<notin> set js \<and> active (G0 ! k))"
proof (induction js arbitrary: G0)
  case Nil
  then show ?case by (simp add: stores_Nil)
next
  case (Cons j js)
  have "active (G0[j := F j (G0 ! j)] ! k) = (k \<noteq> j \<and> active (G0 ! k))"
    using Cons.prems by (cases "k = j") (simp_all add: assms)
  with Cons show ?case by (auto simp: stores_Cons)
qed

lemma append_loop:
  "for_loop js (append_loop_body lib) s = (None, s\<lparr>g := g s @ replicate (length js) (GaussianHF lib)\<rparr>)"
proof (induction js arbitrary: s)
  case Nil
  then show ?case by simp
next
  case (Cons j js)
  then show ?case by (simp add: append_loop_body_def replicate_app_Cons_same)
qed

lemma multidimensional_loop:
  assumes "\<forall>i\<in>set js. i < length (g s)"
  shows "for_loop js (multidimensional_loop_body lib) s =
         (None, s\<lparr>g := stores (\<lambda>i c. set_active_is_multidimensional lib c True) js (g s)\<rparr>)"
  using assms
  by (intro for_loop_stores [where n = "length (g s)" and ps = "peaks s"])
     (simp_all add: multidimensional_loop_body_def store_g_in_range)

lemma inactive_loop:
  assumes "\<forall>i\<in>set js. i < length (g s)"
  shows "for_loop js inactive_loop_body s =
         (None, s\<lparr>g := stores (\<lambda>i c. c\<lparr>active := False\<rparr>) js (g s)\<rparr>)"
  using assms
  by (intro for_loop_stores [where n = "length (g s)" and ps = "peaks s"])
     (simp_all add: inactive_loop_body_def store_g_in_range)

lemma peak_loop_body_in_range:
  assumes "i < length (g s)" "i < length (peaks s)"
  shows "peak_loop_body i s = (None, s\<lparr>g := (g s)[i := peak_store (peaks s) i (g s ! i)]\<rparr>)"
  using assms
  by (simp add: peak_loop_body_def store_g_in_range store_g_position_in_range peak_store_def)

lemma peak_loop:
  assumes "\<forall>i\<in>set js. i < length (g s) \<and> i < length (peaks s)"
  shows "for_loop js peak_loop_body s =
         (None, s\<lparr>g := stores (peak_store (peaks s)) js (g s)\<rparr>)"
  using assms
  by (intro for_loop_stores [where n = "length (g s)" and ps = "peaks s"])
     (simp_all add: peak_loop_body_in_range)

text \<open>
  A round of the peak loop at an index that the peaks have and \<open>g\<close> has not: the
  position is read, and the first store into \<open>g[i]\<close> raises.
\<close>

lemma peak_loop_body_beyond:
  assumes "length (g s) \<le> i" "i < length (peaks s)"
  shows "peak_loop_body i s = (Some IndexError, s)"
  using assms
  by (simp add: peak_loop_body_def store_g_position_def store_g_def list_getitem_nat
        list_getitem_beyond)

lemma for_loop_append:
  "for_loop (js @ ks) body s =
     (case for_loop js body s of (None, s1) \<Rightarrow> for_loop ks body s1 | (Some e, s1) \<Rightarrow> (Some e, s1))"
  by (induction js arbitrary: s) (simp_all split: prod.splits option.splits)

lemma length_multidimensional_g: "length (multidimensional_g lib) = 10"
  by (simp add: multidimensional_g_def length_stores)

text \<open>The cell up to the peak loop, when the library calls before it return.\<close>

lemma advanced_fitting_setup_to_peaks:
  assumes dc: "deepcopy lib (cl3 s) = Inr c"
    and ex: "m_extend lib (m s) (replicate 10 (GaussianHF lib)) = Inr m1"
    and iv: "inav lib c (axes_manager_indices lib (cl3 s)) = Inr si"
    and gp: "getPeaks lib si = Inr ps"
  shows "advanced_fitting_setup lib s =
           run_stmts
             [(\<lambda>s. for_loop [0..<length (peaks s)] peak_loop_body s),
              (\<lambda>s. if length (peaks s) < ng s
                    then for_loop [length (peaks s)..<ng s] inactive_loop_body s
                    else (None, s))]
             (s\<lparr>ng := 10, S2 := c, m := m1, g := multidimensional_g lib, peaks := ps\<rparr>)"
  using dc ex iv gp
  by (simp add: advanced_fitting_setup_def append_loop multidimensional_loop multidimensional_g_def)

text \<open>
  With at most ten peaks the cell reaches the fit: no \<open>g[i]\<close> is out of range, \<open>g\<close>
  holds ten components, and those at or above the number of peaks are inactive.
\<close>

lemma advanced_fitting_setup_run:
  assumes dc: "deepcopy lib (cl3 s) = Inr c"
    and ex: "m_extend lib (m s) (replicate 10 (GaussianHF lib)) = Inr m1"
    and iv: "inav lib c (axes_manager_indices lib (cl3 s)) = Inr si"
    and gp: "getPeaks lib si = Inr ps"
    and le: "length ps \<le> 10"
  shows "advanced_fitting_setup lib s =
           (None, s\<lparr>ng := 10, S2 := c, m := m1, peaks := ps, g := setup_g lib ps\<rparr>)"
proof -
  let ?Gp = "stores (peak_store ps) [0..<length ps] (multidimensional_g lib)"
  let ?s5 = "s\<lparr>ng := 10, S2 := c, m := m1, g := multidimensional_g lib, peaks := ps\<rparr>"
  have "\<forall>i\<in>set [0..<length ps]. i < length (g ?s5) \<and> i < length (peaks ?s5)"
    using le by (simp add: length_multidimensional_g)
  then have p: "for_loop [0..<length ps] peak_loop_body ?s5 = (None, ?s5\<lparr>g := ?Gp\<rparr>)"
    by (simp add: peak_loop)
  have "\<forall>i\<in>set [length ps..<10]. i < length (g (?s5\<lparr>g := ?Gp\<rparr>))"
    by (simp add: length_stores length_multidimensional_g)
  then have q: "for_loop [length ps..<10] inactive_loop_body (?s5\<lparr>g := ?Gp\<rparr>) =
                  (None, ?s5\<lparr>g := setup_g lib ps\<rparr>)"
    by (simp add: inactive_loop setup_g_def)
  have z: "length ps = 10 \<Longrightarrow> setup_g lib ps = ?Gp"
    by (simp add: setup_g_def stores_Nil)
  show ?thesis
    using le p q z by (simp add: advanced_fitting_setup_to_peaks [OF dc ex iv gp])
qed

lemma length_setup_g: "length (setup_g lib ps) = 10"
  by (simp add: setup_g_def length_stores length_multidimensional_g)

lemma setup_g_inactive:
  assumes "length ps \<le> i" "i < 10"
  shows "\<not> active (setup_g lib ps ! i)"
  using assms
  by (simp add: setup_g_def active_stores_False length_stores length_multidimensional_g)

lemma advanced_fitting_cell_run:
  assumes dc: "deepcopy lib (cl3 s) = Inr c"
    and ex: "m_extend lib (m s) (replicate 10 (GaussianHF lib)) = Inr m1"
    and iv: "inav lib c (axes_manager_indices lib (cl3 s)) = Inr si"
    and gp: "getPeaks lib si = Inr ps"
    and le: "length ps \<le> 10"
  shows "advanced_fitting_cell lib s =
           (case m_fit lib m1 (setup_g lib ps) of
              (None, cs) \<Rightarrow>
                (m_plot lib m1, s\<lparr>ng := 10, S2 := c, m := m1, peaks := ps, g := cs\<rparr>)
            | (Some e, cs) \<Rightarrow>
                (Some e, s\<lparr>ng := 10, S2 := c, m := m1, peaks := ps, g := cs\<rparr>))"
  by (simp add: advanced_fitting_cell_def advanced_fitting_setup_run [OF dc ex iv gp le]
        split: prod.splits option.splits)

text \<open>
  With more than ten peaks the cell does not reach the fit: ten rounds of the peak loop
  run, the eleventh reads \<open>g[10]\<close>, and the cell ends in IndexError.
\<close>

lemma advanced_fitting_setup_overrun:
  assumes dc: "deepcopy lib (cl3 s) = Inr c"
    and ex: "m_extend lib (m s) (replicate 10 (GaussianHF lib)) = Inr m1"
    and iv: "inav lib c (axes_manager_indices lib (cl3 s)) = Inr si"
    and gp: "getPeaks lib si = Inr ps"
    and gt: "10 < length ps"
  shows "advanced_fitting_setup lib s =
           (Some IndexError,
            s\<lparr>ng := 10, S2 := c, m := m1, peaks := ps,
              g := stores (peak_store ps) [0..<10] (multidimensional_g lib)\<rparr>)"
proof -
  let ?G10 = "stores (peak_store ps) [0..<10] (multidimensional_g lib)"
  let ?s5 = "s\<lparr>ng := 10, S2 := c, m := m1, g := multidimensional_g lib, peaks := ps\<rparr>"
  have split_range: "[0..<length ps] = [0..<10] @ 10 # [11..<length ps]"
  proof -
    have "[0..<length ps] = [0..<10] @ [10..<length ps]"
      using gt by (metis less_imp_le_nat upt_add_eq_append zero_le le_add_diff_inverse)
    moreover have "[10..<length ps] = 10 # [11..<length ps]"
      using gt by (simp add: upt_conv_Cons)
    ultimately show ?thesis by simp
  qed
  have "\<forall>i\<in>set [0..<10]. i < length (g ?s5) \<and> i < length (peaks ?s5)"
    using gt by (simp add: length_multidimensional_g)
  then have p: "for_loop [0..<10] peak_loop_body ?s5 = (None, ?s5\<lparr>g := ?G10\<rparr>)"
    by (simp add: peak_loop)
  have b: "peak_loop_body 10 (?s5\<lparr>g := ?G10\<rparr>) = (Some IndexError, ?s5\<lparr>g := ?G10\<rparr>)"
    using gt by (intro peak_loop_body_beyond) (simp_all add: length_stores length_multidimensional_g)
  have "for_loop [0..<length ps] peak_loop_body ?s5 = (Some IndexError, ?s5\<lparr>g := ?G10\<rparr>)"
    using p b by (simp add: split_range for_loop_append)
  then show ?thesis
    by (simp add: advanced_fitting_setup_to_peaks [OF dc ex iv gp])
qed

lemma advanced_fitting_cell_overrun:
  assumes dc: "deepcopy lib (cl3 s) = Inr c"
    and ex: "m_extend lib (m s) (replicate 10 (GaussianHF lib)) = Inr m1"
    and iv: "inav lib c (axes_manager_indices lib (cl3 s)) = Inr si"
    and gp: "getPeaks lib si = Inr ps"
    and gt: "10 < length ps"
  shows "fst (advanced_fitting_cell lib s) = Some IndexError"
  by (simp add: advanced_fitting_cell_def advanced_fitting_setup_overrun [OF dc ex iv gp gt])

text \<open>The cell on the library that detects two peaks: it runs to its end.\<close>

lemma advanced_fitting_cell_two_peaks:
  "getPeaks demo_fit_lib 0 = Inr two_peaks \<and>
   fst (advanced_fitting_cell demo_fit_lib demo_fit_state) = None \<and>
   map active (g (snd (advanced_fitting_cell demo_fit_lib demo_fit_state))) =
     [True, True, False, False, False, False, False, False, False, False]"
  by code_simp

text \<open>
  C9. The claim is that \<open>g\<close> holds ten components, that \<open>maxpeakn = 10\<close> keeps the
  number of peaks at ten or less, and that \<open>g[i]\<close> is therefore never out of range.
  The cell does not hold it: nothing in it bounds the number of peaks by the length of
  \<open>g\<close>. On a library whose peak finder keeps the peaks tied in height with the last
  one it may keep, eleven detected peaks of one height all come back from \<open>getPeaks\<close>
  although \<open>maxpeakn\<close> is 10; \<open>g\<close> holds ten components, the eleventh round of the
  peak loop reads \<open>g[10]\<close>, and the cell ends in IndexError before the fit.
\<close>

theorem advanced_fitting_cell_index_error:
  "getPeaks tied_peaks_lib 0 = Inr tied_peaks \<and>
   length tied_peaks = 11 \<and>
   fst (advanced_fitting_setup tied_peaks_lib demo_fit_state) = Some IndexError \<and>
   fst (advanced_fitting_cell tied_peaks_lib demo_fit_state) = Some IndexError \<and>
   length (g (snd (advanced_fitting_cell tied_peaks_lib demo_fit_state))) = 10 \<and>
   ng (snd (advanced_fitting_cell tied_peaks_lib demo_fit_state)) = 10"
  by code_simp

section \<open>Properties of the notebooks' code cells\<close>

subsection \<open>Where the cells stand\<close>

lemma cited_cells:
  "AttolightSEM_sur_to_hspy ! 12 = Code AttolightSEM_sur_to_hspy_cell_12"
  "AttolightSEM_HYP ! 27 = Code AttolightSEM_HYP_cell_27"
  "workshop_2025 ! 26 = Code workshop_2025_cell_26"
  "workshop_2023_03 ! 90 = Code workshop_2023_03_cell_90"
  "workshop_2023_03 ! 91 = Code workshop_2023_03_cell_91"
  by (simp_all add: AttolightSEM_sur_to_hspy_def AttolightSEM_HYP_def workshop_2025_def
        workshop_2023_03_def)

subsection \<open>The three modelled cells in the source\<close>

text \<open>
  What the models of the first sections take from the cells, read off the syntax trees:
  the handler of the background-path cell names \<open>IndexError\<close> and the one of the
  navigator cell names nothing; \<open>size_x\<close> and \<open>size_y\<close> are assigned the same
  expression, and \<open>resolution_y\<close> does not occur in the cell; \<open>ng\<close> is 10 and
  \<open>maxpeakn\<close> is 10.
\<close>

lemma bkg_path_cell_source:
  "handler_types AttolightSEM_sur_to_hspy_cell_12 = [Name ''IndexError''] \<and>
   assigned_values ''bkg_path'' AttolightSEM_sur_to_hspy_cell_12 =
     [Call (Attribute (Attribute (Name ''os'') ''path'') ''join'') [Name ''root_folder'', Str ''*.txt''],
      Subscript (Call (Attribute (Name ''glob'') ''glob'') [Name ''bkg_path'']) (Num ''0''),
      Str '''']"
  by code_simp

lemma navigator_cell_source:
  "handler_types AttolightSEM_HYP_cell_27 = [Absent] \<and>
   assigned_values ''size_x'' AttolightSEM_HYP_cell_27 =
     [Attribute
        (Attribute
           (Attribute (Attribute (Name ''cl_sem_bkg_spikes'') ''metadata'') ''Acquisition_instrument'')
           ''SEM'')
        ''resolution_x''] \<and>
   assigned_values ''size_y'' AttolightSEM_HYP_cell_27 =
     assigned_values ''size_x'' AttolightSEM_HYP_cell_27 \<and>
   ''resolution_y'' \<notin> set (attrs_of AttolightSEM_HYP_cell_27)"
  by code_simp

lemma advanced_fitting_cell_source:
  "assigned_values ''ng'' workshop_2023_03_cell_91 = [Num ''10''] \<and>
   Keyword ''maxpeakn'' (Num ''10'') \<in> set (all_exprs workshop_2023_03_cell_90) \<and>
   bare_calls_of workshop_2023_03_cell_91 = [''list'', ''getPeaks'']"
  by code_simp

subsection \<open>Control flow\<close>

lemma control_flow_cells:
  "map (cells_where (\<lambda>ss. control_flow ss \<noteq> [])) notebooks = [[12, 15], [27], [], [], [91], []]"
  by code_simp

lemma control_flow_sur_12: "control_flow AttolightSEM_sur_to_hspy_cell_12 = [''try'']"
  by code_simp

lemma control_flow_sur_15: "control_flow AttolightSEM_sur_to_hspy_cell_15 = [''if'', ''if'']"
  by code_simp

lemma control_flow_HYP_27: "control_flow AttolightSEM_HYP_cell_27 = [''try'']"
  by code_simp

lemma control_flow_2023_03_91:
  "control_flow workshop_2023_03_cell_91 = [''for'', ''for'', ''for'', ''if'', ''for'']"
  by code_simp

text \<open>
  C2, as stated, fails: the advanced fitting cell has four loops and a conditional, the
  navigator cell and the background-path cell have an exception handler each.
\<close>

theorem no_control_flow_counterexample:
  "workshop_2023_03 ! 91 = Code workshop_2023_03_cell_91 \<and>
   control_flow workshop_2023_03_cell_91 = [''for'', ''for'', ''for'', ''if'', ''for''] \<and>
   AttolightSEM_HYP ! 27 = Code AttolightSEM_HYP_cell_27 \<and>
   control_flow AttolightSEM_HYP_cell_27 = [''try''] \<and>
   AttolightSEM_sur_to_hspy ! 12 = Code AttolightSEM_sur_to_hspy_cell_12 \<and>
   control_flow AttolightSEM_sur_to_hspy_cell_12 = [''try'']"
  by (intro conjI cited_cells control_flow_2023_03_91 control_flow_HYP_27 control_flow_sur_12)

text \<open>
  C2, amended. The code cells of the six notebooks hold no loop, no conditional branch
  and no exception handler, except four cells: in \<open>AttolightSEM_sur_to_hspy\<close> the
  background-path cell 12 (a \<open>try\<close>) and the grating cell 15 (an \<open>if\<close> with an
  \<open>elif\<close>), in \<open>AttolightSEM_HYP\<close> the navigator cell 27 (a \<open>try\<close>), and in the
  workshop notebook of March 2023 the advanced fitting cell 91 (four \<open>for\<close> loops and
  an \<open>if\<close>). The other three notebooks have none.
\<close>

theorem control_flow_only_in_four_cells:
  "map (cells_where (\<lambda>ss. control_flow ss \<noteq> [])) notebooks = [[12, 15], [27], [], [], [91], []] \<and>
   control_flow AttolightSEM_sur_to_hspy_cell_12 = [''try''] \<and>
   control_flow AttolightSEM_sur_to_hspy_cell_15 = [''if'', ''if''] \<and>
   control_flow AttolightSEM_HYP_cell_27 = [''try''] \<and>
   control_flow workshop_2023_03_cell_91 = [''for'', ''for'', ''for'', ''if'', ''for'']"
  by (intro conjI control_flow_cells control_flow_sur_12 control_flow_sur_15 control_flow_HYP_27
        control_flow_2023_03_91)

subsection \<open>Functions and algorithms of the notebooks' own\<close>

lemma functions_of_notebooks:
  "map (\<lambda>nb. defined_functions (notebook_source nb)) notebooks = [[], [], [], [], [''getPeaks''], []]"
  by code_simp

lemma getPeaks_defined: "defined_functions workshop_2023_03_cell_90 = [''getPeaks'']"
  by code_simp

lemma getPeaks_calls:
  "calls_of workshop_2023_03_cell_90 =
     [''rebin'', ''smooth_savitzky_golay'', ''find_peaks1D_ohaver'', ''max'']"
  by code_simp

lemma getPeaks_called: "cells_calling ''getPeaks'' workshop_2023_03 = [91]"
  by code_simp

lemma bare_calls_of_notebooks:
  "map (\<lambda>nb. bare_calls_of (notebook_source nb)) notebooks =
     [[''print'', ''print'', ''int'', ''ImportError''], [], [], [''dir''], [''list'', ''getPeaks''], []]"
  by code_simp

lemma lambdas_of_notebooks:
  "map (\<lambda>nb. lambdas_of (notebook_source nb)) notebooks =
     [[], [], [],
      [Lambda [''I''] (BinOp (Name ''I'') ''/'' (Call (Attribute (Name ''I'') ''max'') []))],
      [], []]"
  by code_simp

lemma calls_remove_background:
  "map (cells_calling ''remove_background'') notebooks = [[], [], [19], [], [68], [16]]"
  by code_simp

lemma calls_background_subtraction:
  "map (cells_calling ''background_subtraction'') notebooks = [[], [11], [], [], [], []]"
  by code_simp

lemma calls_to_eV:
  "map (cells_calling ''to_eV'') notebooks = [[], [], [12], [50], [34, 40, 41], [42]]"
  by code_simp

lemma calls_fit:
  "map (cells_calling ''fit'') notebooks = [[], [], [], [], [56, 89, 91], []]"
  by code_simp

lemma calls_multifit:
  "map (cells_calling ''multifit'') notebooks = [[], [], [], [28, 55], [60], [57]]"
  by code_simp

lemma calls_spikes_removal_tool:
  "map (cells_calling ''spikes_removal_tool'') notebooks = [[], [], [23], [], [72], [21]]"
  by code_simp

lemma calls_remove_spikes:
  "map (cells_calling ''remove_spikes'') notebooks = [[20], [], [], [], [], []]"
  by code_simp

lemma calls_cosmic_rays_subtraction:
  "map (cells_calling ''cosmic_rays_subtraction'') notebooks = [[], [17], [], [], [], []]"
  by code_simp

lemma calls_find_peaks1D_ohaver:
  "map (cells_calling ''find_peaks1D_ohaver'') notebooks = [[], [], [], [], [79, 90], [27]]"
  by code_simp

lemma sur_background_by_operator:
  "calls_of AttolightSEM_sur_to_hspy_cell_13 = [''loadtxt'', ''print''] \<and>
   last AttolightSEM_sur_to_hspy_cell_13 =
     Assign [Name ''cl''] (BinOp (Name ''cl'') ''-'' (Name ''cl_bkg''))"
  by code_simp

text \<open>
  C1, as stated, fails: cell 90 of the workshop notebook of March 2023 defines a
  function, \<open>getPeaks\<close>, a peak-finding routine of the repository's own, and the
  advanced fitting cell 91, which calls it, sets the fit up with loops of its own.
\<close>

theorem no_own_routine_counterexample:
  "workshop_2023_03 ! 90 = Code workshop_2023_03_cell_90 \<and>
   defined_functions workshop_2023_03_cell_90 = [''getPeaks''] \<and>
   calls_of workshop_2023_03_cell_90 =
     [''rebin'', ''smooth_savitzky_golay'', ''find_peaks1D_ohaver'', ''max'']"
  by (intro conjI cited_cells getPeaks_defined getPeaks_calls)

text \<open>
  C1, amended. The library's methods for the hard operations are called from the code
  cells: \<open>remove_background\<close> and \<open>background_subtraction\<close>, \<open>to_eV\<close>,
  \<open>fit\<close> and \<open>multifit\<close>, \<open>spikes_removal_tool\<close>, \<open>remove_spikes\<close> and
  \<open>cosmic_rays_subtraction\<close>, \<open>find_peaks1D_ohaver\<close> (in \<open>AttolightSEM_sur_to_hspy\<close>
  the background is subtracted with the \<open>-\<close> operator, cell 13). The code cells define
  one function, \<open>getPeaks\<close> (cell 90 of the workshop notebook of March 2023), whose
  body calls \<open>rebin\<close>, \<open>smooth_savitzky_golay\<close> and \<open>find_peaks1D_ohaver\<close>;
  the advanced fitting cell 91 is the one cell that calls it, and it sets the fit up with
  four loops and a conditional of its own. Apart from \<open>getPeaks\<close>,
  the only calls that go to a bare name go to the builtins \<open>print\<close>, \<open>int\<close>,
  \<open>ImportError\<close>, \<open>dir\<close> and \<open>list\<close>, and there is one \<open>lambda\<close>.
\<close>

theorem getPeaks_only_own_routine:
  "map (\<lambda>nb. defined_functions (notebook_source nb)) notebooks = [[], [], [], [], [''getPeaks''], []] \<and>
   calls_of workshop_2023_03_cell_90 =
     [''rebin'', ''smooth_savitzky_golay'', ''find_peaks1D_ohaver'', ''max''] \<and>
   cells_calling ''getPeaks'' workshop_2023_03 = [91] \<and>
   control_flow workshop_2023_03_cell_91 = [''for'', ''for'', ''for'', ''if'', ''for''] \<and>
   map (\<lambda>nb. bare_calls_of (notebook_source nb)) notebooks =
     [[''print'', ''print'', ''int'', ''ImportError''], [], [], [''dir''], [''list'', ''getPeaks''], []] \<and>
   map (\<lambda>nb. lambdas_of (notebook_source nb)) notebooks =
     [[], [], [],
      [Lambda [''I''] (BinOp (Name ''I'') ''/'' (Call (Attribute (Name ''I'') ''max'') []))],
      [], []] \<and>
   map (cells_calling ''remove_background'') notebooks = [[], [], [19], [], [68], [16]] \<and>
   map (cells_calling ''background_subtraction'') notebooks = [[], [11], [], [], [], []] \<and>
   map (cells_calling ''to_eV'') notebooks = [[], [], [12], [50], [34, 40, 41], [42]] \<and>
   map (cells_calling ''fit'') notebooks = [[], [], [], [], [56, 89, 91], []] \<and>
   map (cells_calling ''multifit'') notebooks = [[], [], [], [28, 55], [60], [57]] \<and>
   map (cells_calling ''spikes_removal_tool'') notebooks = [[], [], [23], [], [72], [21]] \<and>
   map (cells_calling ''remove_spikes'') notebooks = [[20], [], [], [], [], []] \<and>
   map (cells_calling ''cosmic_rays_subtraction'') notebooks = [[], [17], [], [], [], []] \<and>
   map (cells_calling ''find_peaks1D_ohaver'') notebooks = [[], [], [], [], [79, 90], [27]] \<and>
   calls_of AttolightSEM_sur_to_hspy_cell_13 = [''loadtxt'', ''print''] \<and>
   last AttolightSEM_sur_to_hspy_cell_13 =
     Assign [Name ''cl''] (BinOp (Name ''cl'') ''-'' (Name ''cl_bkg''))"
  by (intro conjI functions_of_notebooks getPeaks_calls getPeaks_called control_flow_2023_03_91
        bare_calls_of_notebooks
        lambdas_of_notebooks calls_remove_background calls_background_subtraction calls_to_eV
        calls_fit calls_multifit calls_spikes_removal_tool calls_remove_spikes
        calls_cosmic_rays_subtraction calls_find_peaks1D_ohaver
        sur_background_by_operator [THEN conjunct1] sur_background_by_operator [THEN conjunct2])

subsection \<open>The operations the notebooks exercise\<close>

lemma loads_Gatan:
  "loaded_files (notebook_source GatanSEM_dm) =
     [''demo-files/load_from_GatanFiles/Test-spectrum_ZnO-NWs.dm4'',
      ''demo-files/load_from_GatanFiles/Test-linescan_InGaAs-NWs.dm4'']"
  by code_simp

lemma loads_sur:
  "calls_of AttolightSEM_sur_to_hspy_cell_5 = [''join'', ''load''] \<and>
   Str ''HYPCard.sur'' \<in> set (all_exprs AttolightSEM_sur_to_hspy_cell_5)"
  by code_simp

lemma loads_HYP:
  "calls_of AttolightSEM_HYP_cell_5 = [''load''] \<and>
   Str ''demo-files/load_from_AttoLightSEM/HYPCard.bin'' \<in> set (all_exprs AttolightSEM_HYP_cell_5)"
  by code_simp

lemma calls_plot_Gatan: "cells_calling ''plot'' GatanSEM_dm = [10, 13, 17, 21]"
  by code_simp

lemma reads_metadata:
  "map (cells_where (\<lambda>ss. ''metadata'' \<in> set (attrs_of ss))) notebooks =
     [[8], [9, 27, 29], [25, 29, 30], [13], [14], [12]]"
  by code_simp

lemma metadata_cell_Gatan: "GatanSEM_dm_cell_25 = [Expr (Attribute (Name ''cl_spec'') ''metadata'')]"
  by (simp add: GatanSEM_dm_cell_25_def)

lemma calls_set_item: "cells_calling ''set_item'' GatanSEM_dm = [29]"
  by code_simp

text \<open>
  C6. Taken together, the notebooks load vendor files (Gatan \<open>.dm4\<close>, AttoLight
  \<open>.sur\<close> and \<open>.bin\<close>) and every named class of operation is exercised in a code
  cell: plotting (\<open>plot\<close>), background removal (\<open>remove_background\<close>,
  \<open>background_subtraction\<close>), spike removal (\<open>spikes_removal_tool\<close>,
  \<open>remove_spikes\<close>), spectral-axis conversion (\<open>to_eV\<close>), peak fitting
  (\<open>fit\<close>, \<open>multifit\<close>) and metadata inspection (the \<open>metadata\<close> attribute of
  a signal is read in every notebook, and \<open>metadata.set_item\<close> is called).
\<close>

theorem operation_classes_exercised:
  "loaded_files (notebook_source GatanSEM_dm) =
     [''demo-files/load_from_GatanFiles/Test-spectrum_ZnO-NWs.dm4'',
      ''demo-files/load_from_GatanFiles/Test-linescan_InGaAs-NWs.dm4''] \<and>
   calls_of AttolightSEM_sur_to_hspy_cell_5 = [''join'', ''load''] \<and>
   Str ''HYPCard.sur'' \<in> set (all_exprs AttolightSEM_sur_to_hspy_cell_5) \<and>
   calls_of AttolightSEM_HYP_cell_5 = [''load''] \<and>
   Str ''demo-files/load_from_AttoLightSEM/HYPCard.bin'' \<in> set (all_exprs AttolightSEM_HYP_cell_5) \<and>
   cells_calling ''plot'' GatanSEM_dm = [10, 13, 17, 21] \<and>
   cells_calling ''remove_background'' GatanSEM_dm = [19] \<and>
   cells_calling ''background_subtraction'' AttolightSEM_HYP = [11] \<and>
   cells_calling ''spikes_removal_tool'' GatanSEM_dm = [23] \<and>
   cells_calling ''remove_spikes'' AttolightSEM_sur_to_hspy = [20] \<and>
   cells_calling ''to_eV'' GatanSEM_dm = [12] \<and>
   cells_calling ''to_eV'' workshop_2023_03 = [34, 40, 41] \<and>
   cells_calling ''fit'' workshop_2023_03 = [56, 89, 91] \<and>
   cells_calling ''multifit'' workshop_2025 = [28, 55] \<and>
   map (cells_where (\<lambda>ss. ''metadata'' \<in> set (attrs_of ss))) notebooks =
     [[8], [9, 27, 29], [25, 29, 30], [13], [14], [12]] \<and>
   GatanSEM_dm_cell_25 = [Expr (Attribute (Name ''cl_spec'') ''metadata'')] \<and>
   cells_calling ''set_item'' GatanSEM_dm = [29]"
proof -
  have rb: "cells_calling ''remove_background'' GatanSEM_dm = [19]" by code_simp
  have bs: "cells_calling ''background_subtraction'' AttolightSEM_HYP = [11]" by code_simp
  have sr: "cells_calling ''spikes_removal_tool'' GatanSEM_dm = [23]" by code_simp
  have rs: "cells_calling ''remove_spikes'' AttolightSEM_sur_to_hspy = [20]" by code_simp
  have e1: "cells_calling ''to_eV'' GatanSEM_dm = [12]" by code_simp
  have e2: "cells_calling ''to_eV'' workshop_2023_03 = [34, 40, 41]" by code_simp
  have f1: "cells_calling ''fit'' workshop_2023_03 = [56, 89, 91]" by code_simp
  have f2: "cells_calling ''multifit'' workshop_2025 = [28, 55]" by code_simp
  show ?thesis
    by (intro conjI loads_Gatan loads_sur [THEN conjunct1] loads_sur [THEN conjunct2]
          loads_HYP [THEN conjunct1] loads_HYP [THEN conjunct2] calls_plot_Gatan rb bs sr rs
          e1 e2 f1 f2 reads_metadata metadata_cell_Gatan calls_set_item)
qed

subsection \<open>Structures of the notebooks' own\<close>

lemma classes_of_notebooks:
  "map (\<lambda>nb. defined_classes (notebook_source nb)) notebooks = [[], [], [], [], [], []]"
  by code_simp

lemma components_of_notebooks:
  "map (\<lambda>nb. custom_components (notebook_source nb)) notebooks = [[], [], [], [''Decay1Exp''], [], []]"
  by code_simp

lemma Decay1Exp_cell: "custom_components workshop_2025_cell_26 = [''Decay1Exp'']"
  by code_simp

lemma Decay1Exp_cells:
  "cells_where (\<lambda>ss. custom_components ss \<noteq> []) workshop_2025 = [26]"
  by code_simp

text \<open>
  C7, as stated, fails: cell 26 of the workshop notebook of 2025 makes a model component
  of its own, \<open>Decay1Exp\<close>, from an expression string.
\<close>

theorem no_own_structure_counterexample:
  "workshop_2025 ! 26 = Code workshop_2025_cell_26 \<and>
   custom_components workshop_2025_cell_26 = [''Decay1Exp'']"
  by (intro conjI cited_cells Decay1Exp_cell)

text \<open>
  C7, amended. No code cell defines a class (no signal class, no subclass of a library
  structure); one cell, cell 26 of the workshop notebook of 2025, defines a model
  component of the repository's own, \<open>Decay1Exp\<close>, from a custom expression through
  the library's \<open>Expression\<close> component, and no other cell does.
\<close>

theorem Decay1Exp_only_own_structure:
  "map (\<lambda>nb. defined_classes (notebook_source nb)) notebooks = [[], [], [], [], [], []] \<and>
   map (\<lambda>nb. custom_components (notebook_source nb)) notebooks = [[], [], [], [''Decay1Exp''], [], []] \<and>
   cells_where (\<lambda>ss. custom_components ss \<noteq> []) workshop_2025 = [26]"
  by (intro conjI classes_of_notebooks components_of_notebooks Decay1Exp_cells)

end
